theory Spec2Isabelle
  imports Complex_Main "HOL-Library.Log_Nat"
begin

section \<open>Values held by the store of database.py\<close>

text \<open>
  The calendar day of a Python \<open>date\<close>: its proleptic Gregorian ordinal, between
  \<open>date.min\<close> (0001-01-01, day 1) and \<open>date.max\<close> (9999-12-31, day 3652059).
\<close>

typedef pydate = "{d::int. 1 \<le> d \<and> d \<le> 3652059}"
  by (rule exI [of _ 1]) simp

text \<open>
  A naive \<open>datetime\<close> is its calendar day and the microseconds elapsed since midnight.
  The text columns \<open>date_borrowed\<close>, \<open>date_due\<close>, \<open>date_returned\<close> and
  \<open>created_at\<close> hold \<open>isoformat()\<close> of such a value and are read back with
  \<open>fromisoformat\<close>; the model keeps the value itself. The ISO text of a datetime is
  never empty, so a non-null \<open>date_returned\<close> is truthy in Python.
\<close>

record datetime =
  date :: pydate
  micros :: nat

definition ordinal :: "datetime \<Rightarrow> int" where
  "ordinal t = Rep_pydate (date t)"

definition date_in_range :: "int \<Rightarrow> bool" where
  "date_in_range d \<longleftrightarrow> 1 \<le> d \<and> d \<le> 3652059"

text \<open>\<open>t + timedelta(days=n)\<close>, where the day reached is in range.\<close>

definition plus_days :: "datetime \<Rightarrow> int \<Rightarrow> datetime" where
  "plus_days t n = t\<lparr>date := Abs_pydate (ordinal t + n)\<rparr>"

subsection \<open>Python floats\<close>

text \<open>
  A Python \<open>float\<close> is an IEEE 754 binary64 number: \<open>Fin r\<close> is the finite number
  of value \<open>r\<close> (\<open>Fin 0\<close> is \<open>0.0\<close>), \<open>NegZero\<close> is \<open>-0.0\<close>, and there are the
  two infinities and NaN.
\<close>

datatype float64 = Fin real | NegZero | PosInf | NegInf | NaN

definition pow2 :: "int \<Rightarrow> real" where
  "pow2 k = (if 0 \<le> k then 2 ^ nat k else 1 / 2 ^ nat (- k))"

text \<open>The binary exponent of a positive number \<open>a\<close>: the \<open>e\<close> with
  \<open>pow2 e \<le> a < pow2 (e + 1)\<close>.\<close>

definition flog2 :: "real \<Rightarrow> int" where
  "flog2 a = (if 1 \<le> a then bitlen \<lfloor>a\<rfloor> - 1 else - bitlen (\<lceil>1 / a\<rceil> - 1))"

definition round_half_even :: "real \<Rightarrow> int" where
  "round_half_even q =
     (let f = \<lfloor>q\<rfloor>; r = q - of_int f
      in if r < 1 / 2 then f else if 1 / 2 < r then f + 1 else if even f then f else f + 1)"

definition signed_zero :: "bool \<Rightarrow> float64" where
  "signed_zero neg = (if neg then NegZero else Fin 0)"

definition signed_inf :: "bool \<Rightarrow> float64" where
  "signed_inf neg = (if neg then NegInf else PosInf)"

text \<open>
  Rounding to nearest, ties to even, of the number of sign \<open>neg\<close> and size \<open>a\<close>: 53
  significant bits, the spacing never below \<open>pow2 (- 1074)\<close> (subnormal numbers), an
  infinity when the rounded size reaches \<open>pow2 1024\<close>.
\<close>

definition round64 :: "bool \<Rightarrow> real \<Rightarrow> float64" where
  "round64 neg a =
     (if a = 0 then signed_zero neg
      else
        let e = max (flog2 a) (- 1022);
            u = pow2 (e - 52);
            n = round_half_even (a / u);
            r = of_int n * u
        in if pow2 1024 \<le> r then signed_inf neg
           else if n = 0 then signed_zero neg
           else Fin (if neg then - r else r))"

fun negative :: "float64 \<Rightarrow> bool" where
  "negative (Fin r) = (r < 0)"
| "negative NegZero = True"
| "negative NegInf = True"
| "negative PosInf = False"
| "negative NaN = False"

fun magnitude :: "float64 \<Rightarrow> real" where
  "magnitude (Fin r) = \<bar>r\<bar>"
| "magnitude x = 0"

fun finite64 :: "float64 \<Rightarrow> bool" where
  "finite64 (Fin r) = True"
| "finite64 NegZero = True"
| "finite64 x = False"

text \<open>The product \<open>x * y\<close> of two floats.\<close>

definition fmul :: "float64 \<Rightarrow> float64 \<Rightarrow> float64" where
  "fmul x y =
     (if x = NaN \<or> y = NaN then NaN
      else if \<not> finite64 x \<or> \<not> finite64 y then
        (if (finite64 x \<and> magnitude x = 0) \<or> (finite64 y \<and> magnitude y = 0) then NaN
         else signed_inf (negative x \<noteq> negative y))
      else round64 (negative x \<noteq> negative y) (magnitude x * magnitude y))"

text \<open>The float that an \<open>int\<close> converts to when it meets a float in a product. It is
  applied to the difference of two calendar days, which is below \<open>2 ^ 22\<close> in size.\<close>

definition float_of_int :: "int \<Rightarrow> float64" where
  "float_of_int d = round64 (d < 0) \<bar>of_int d\<bar>"

text \<open>What a REAL column holds once a float is written to it: SQLite stores NaN as
  NULL, and a float without fractional part as an integer, so that \<open>-0.0\<close> reads back
  as \<open>0.0\<close>.\<close>

definition sqlite_real :: "float64 \<Rightarrow> float64 option" where
  "sqlite_real x = (if x = NaN then None else if x = NegZero then Some (Fin 0) else Some x)"

subsection \<open>Texts, exceptions, rows\<close>

text \<open>
  An f-string is kept as the list of its literal pieces and interpolated values, in
  order: \<open>IntV\<close> an integer, \<open>DateV\<close> a calendar day printed by \<open>str(date)\<close>,
  \<open>FloatV\<close> a float printed by \<open>repr\<close>, \<open>Fix2V\<close> a float printed with \<open>:.2f\<close>,
  \<open>StrV\<close> a string.
\<close>

datatype piece = Lit string | IntV int | DateV int | FloatV float64 | Fix2V float64 | StrV string

type_synonym fstring = "piece list"

datatype exn = OverflowError | IntegrityError | ValueError

text \<open>Rows of the tables created by \<open>init_db\<close>.\<close>

record book_row =
  book_id :: int
  book_title :: string
  book_author :: "string option"
  book_category :: "string option"
  book_isbn :: "string option"
  book_available :: int

record member_row =
  member_id :: int
  member_name :: string
  member_email :: "string option"

record loan_row =
  loan_id :: int
  loan_book_id :: int
  loan_member_id :: int
  loan_date_borrowed :: datetime
  loan_date_due :: datetime
  loan_date_returned :: "datetime option"
  loan_late_fee :: "float64 option"

record user_row =
  user_id :: int
  user_username :: string
  user_password_hash :: string
  user_role :: string

record audit_row =
  audit_id :: int
  audit_actor :: string
  audit_action :: string
  audit_details :: fstring
  audit_created_at :: datetime

text \<open>The database: every table in insertion order, and for each AUTOINCREMENT table
  the largest rowid it has ever held (SQLite's \<open>sqlite_sequence\<close>).\<close>

record db =
  books :: "book_row list"
  members :: "member_row list"
  loans :: "loan_row list"
  settings :: "(string \<times> string) list"
  users :: "user_row list"
  audit_log :: "audit_row list"
  seq_books :: int
  seq_members :: int
  seq_loans :: int
  seq_users :: int
  seq_audit_log :: int

text \<open>The dictionaries returned to the caller: \<open>success\<close>, \<open>message\<close> and, from
  \<open>return_book\<close> on success only, \<open>late_fee\<close>.\<close>

record result =
  success :: bool
  message :: fstring
  late_fee :: "float64 option"

section \<open>SQL statements used by database.py\<close>

definition fetchone :: "('r \<Rightarrow> bool) \<Rightarrow> 'r list \<Rightarrow> 'r option" where
  "fetchone p rows = find p rows"

definition update_where :: "('r \<Rightarrow> bool) \<Rightarrow> ('r \<Rightarrow> 'r) \<Rightarrow> 'r list \<Rightarrow> 'r list" where
  "update_where p f rows = map (\<lambda>r. if p r then f r else r) rows"

definition delete_where :: "('r \<Rightarrow> bool) \<Rightarrow> 'r list \<Rightarrow> 'r list" where
  "delete_where p rows = filter (\<lambda>r. \<not> p r) rows"


text \<open>The rowid given to a row inserted into an AUTOINCREMENT table: one more than the
  largest rowid the table holds or has ever held.\<close>

definition next_rowid :: "int \<Rightarrow> int list \<Rightarrow> int" where
  "next_rowid seq ids = fold max ids seq + 1"

text \<open>The integers SQLite stores: signed, 64 bits. Given a Python \<open>int\<close> outside
  them as a parameter, \<open>execute\<close> raises OverflowError before the statement runs.\<close>

definition sqlite_int :: "int \<Rightarrow> bool" where
  "sqlite_int i \<longleftrightarrow> - (2 ^ 63) \<le> i \<and> i < 2 ^ 63"

text \<open>\<open>actor or "unknown"\<close>: \<open>None\<close> and the empty string are falsy.\<close>

definition actor_or_unknown :: "string option \<Rightarrow> string" where
  "actor_or_unknown actor =
     (case actor of None \<Rightarrow> ''unknown''
      | Some a \<Rightarrow> if a = [] then ''unknown'' else a)"

definition quote :: string where
  "quote = [CHR 0x27]"

section \<open>Audit\<close>

definition log_audit :: "datetime \<Rightarrow> string \<Rightarrow> string \<Rightarrow> fstring \<Rightarrow> db \<Rightarrow> db" where
  "log_audit now actor action details s =
     (let rid = next_rowid (seq_audit_log s) (map audit_id (audit_log s)) in
      s\<lparr>audit_log := audit_log s @
           [\<lparr>audit_id = rid, audit_actor = actor, audit_action = action,
             audit_details = details, audit_created_at = now\<rparr>],
        seq_audit_log := rid\<rparr>)"

section \<open>Settings\<close>

definition get_setting :: "string \<Rightarrow> db \<Rightarrow> string option" where
  "get_setting key s = map_option snd (fetchone (\<lambda>r. fst r = key) (settings s))"

text \<open>\<open>INSERT OR REPLACE\<close> removes the row that holds the key, if any, and inserts the
  new one. The value is the text \<open>str(value)\<close> that the caller's value prints as.\<close>

definition set_setting :: "datetime \<Rightarrow> string \<Rightarrow> string \<Rightarrow> string option \<Rightarrow> db \<Rightarrow> db" where
  "set_setting log_now key val actor s =
     log_audit log_now (actor_or_unknown actor) ''set_setting''
       [StrV key, Lit ''='', StrV val]
       (s\<lparr>settings := delete_where (\<lambda>r. fst r = key) (settings s) @ [(key, val)]\<rparr>)"

section \<open>Users\<close>

text \<open>
  The bcrypt library is a parameter. \<open>hashpw password salt\<close> stands for
  \<open>bcrypt.hashpw(password.encode("utf-8"), salt)\<close>, \<open>salt\<close> being what
  \<open>gensalt()\<close> returned for this call; it is \<open>None\<close> when the encoding or the library
  raises (bcrypt 5 raises ValueError for a password of more than 72 bytes). The callers
  have no \<open>try\<close> around it, so the exception leaves the function, before its first
  write. \<open>checkpw password hash\<close> is \<open>None\<close> when the library raises, which
  \<open>verify_user\<close> catches. \<open>log_now\<close> is the clock reading taken inside
  \<open>log_audit\<close>. Inserting a username that a row already holds violates the UNIQUE
  constraint.
\<close>

definition create_user ::
  "(string \<Rightarrow> string \<Rightarrow> string option) \<Rightarrow> string \<Rightarrow> datetime \<Rightarrow> string \<Rightarrow> string \<Rightarrow> string \<Rightarrow> db
    \<Rightarrow> (exn + unit) \<times> db" where
  "create_user hashpw salt log_now username password_plain role s =
     (case hashpw password_plain salt of
        None \<Rightarrow> (Inl ValueError, s)
      | Some hashed \<Rightarrow>
          if username \<in> set (map user_username (users s)) then (Inl IntegrityError, s)
          else
            let rid = next_rowid (seq_users s) (map user_id (users s));
                s1 = s\<lparr>users := users s @
                         [\<lparr>user_id = rid, user_username = username,
                           user_password_hash = hashed, user_role = role\<rparr>],
                       seq_users := rid\<rparr>
            in (Inr (),
                log_audit log_now username ''create_user''
                  [Lit ''created user '', Lit quote, StrV username, Lit quote,
                   Lit '' with role '', Lit quote, StrV role, Lit quote] s1))"

definition verify_user ::
  "(string \<Rightarrow> string \<Rightarrow> bool option) \<Rightarrow> string \<Rightarrow> string \<Rightarrow> db \<Rightarrow> bool" where
  "verify_user checkpw username password_plain s =
     (case fetchone (\<lambda>r. user_username r = username) (users s) of
        None \<Rightarrow> False
      | Some row \<Rightarrow>
          (case checkpw password_plain (user_password_hash row) of
             None \<Rightarrow> False
           | Some b \<Rightarrow> b))"

definition change_user_password ::
  "(string \<Rightarrow> string \<Rightarrow> bool option) \<Rightarrow> (string \<Rightarrow> string \<Rightarrow> string option) \<Rightarrow> string \<Rightarrow> datetime
    \<Rightarrow> string \<Rightarrow> string \<Rightarrow> string \<Rightarrow> db \<Rightarrow> (exn + result) \<times> db" where
  "change_user_password checkpw hashpw salt log_now username old_password_plain new_password_plain s =
     (if \<not> verify_user checkpw username old_password_plain s then
        (Inr \<lparr>success = False, message = [Lit ''Current password incorrect.''],
              late_fee = None\<rparr>, s)
      else
        case hashpw new_password_plain salt of
          None \<Rightarrow> (Inl ValueError, s)
        | Some hashed \<Rightarrow>
            let s1 = s\<lparr>users := update_where (\<lambda>r. user_username r = username)
                                  (\<lambda>r. r\<lparr>user_password_hash := hashed\<rparr>) (users s)\<rparr>
            in (Inr \<lparr>success = True, message = [Lit ''Password changed.''], late_fee = None\<rparr>,
                log_audit log_now username ''change_password''
                  [Lit ''user '', Lit quote, StrV username, Lit quote,
                   Lit '' changed their password''] s1))"

definition admin_reset_password ::
  "(string \<Rightarrow> string \<Rightarrow> string option) \<Rightarrow> string \<Rightarrow> datetime \<Rightarrow> string \<Rightarrow> string \<Rightarrow> string \<Rightarrow> db
    \<Rightarrow> (exn + result) \<times> db" where
  "admin_reset_password hashpw salt log_now admin_username target_username new_password_plain s =
     (case hashpw new_password_plain salt of
        None \<Rightarrow> (Inl ValueError, s)
      | Some hashed \<Rightarrow>
          let s1 = s\<lparr>users := update_where (\<lambda>r. user_username r = target_username)
                                (\<lambda>r. r\<lparr>user_password_hash := hashed\<rparr>) (users s)\<rparr>
          in (Inr \<lparr>success = True,
                   message = [Lit ''Password for '', StrV target_username, Lit '' reset.''],
                   late_fee = None\<rparr>,
              log_audit log_now admin_username ''admin_reset_password''
                [Lit ''admin '', Lit quote, StrV admin_username, Lit quote,
                 Lit '' reset password for '', Lit quote, StrV target_username, Lit quote] s1))"

section \<open>Books\<close>


section \<open>Loans\<close>

text \<open>
  \<open>now\<close> is the clock reading taken in the body and \<open>log_now\<close> the one taken inside
  \<open>log_audit\<close>. The first \<open>SELECT\<close> is given the book id: an id that is no SQLite
  integer raises OverflowError there. Every id a table holds is a SQLite integer, so
  such an id is the id of no row, and the raise stands in the branch where no row is
  found. \<open>timedelta(days=days_due)\<close> raises OverflowError beyond 999999999 days, and so
  does the addition when the due date leaves the range of \<open>date\<close>; the \<open>INSERT\<close> is
  given the member id and raises OverflowError for one that is no SQLite integer. All
  of these happen before the first write.
\<close>

definition borrow_book ::
  "datetime \<Rightarrow> datetime \<Rightarrow> int \<Rightarrow> int \<Rightarrow> int \<Rightarrow> string option \<Rightarrow> db \<Rightarrow> (exn + result) \<times> db" where
  "borrow_book now log_now bid mid days_due actor s =
     (case fetchone (\<lambda>b. book_id b = bid) (books s) of
        None \<Rightarrow>
          if \<not> sqlite_int bid then (Inl OverflowError, s)
          else (Inr \<lparr>success = False, message = [Lit ''Book not found.''], late_fee = None\<rparr>, s)
      | Some b \<Rightarrow>
          if book_available b = 0 then
            (Inr \<lparr>success = False, message = [Lit ''Book currently not available.''],
                  late_fee = None\<rparr>, s)
          else if \<bar>days_due\<bar> > 999999999 \<or> \<not> date_in_range (ordinal now + days_due) then
            (Inl OverflowError, s)
          else if \<not> sqlite_int mid then (Inl OverflowError, s)
          else
            let due = plus_days now days_due;
                rid = next_rowid (seq_loans s) (map loan_id (loans s));
                s1 = s\<lparr>loans := loans s @
                         [\<lparr>loan_id = rid, loan_book_id = bid, loan_member_id = mid,
                           loan_date_borrowed = now, loan_date_due = due,
                           loan_date_returned = None, loan_late_fee = Some (Fin 0)\<rparr>],
                       seq_loans := rid,
                       books := update_where (\<lambda>r. book_id r = bid)
                                  (\<lambda>r. r\<lparr>book_available := 0\<rparr>) (books s)\<rparr>
            in (Inr \<lparr>success = True,
                     message = [Lit ''Borrowed successfully; due on '', DateV (ordinal due)],
                     late_fee = None\<rparr>,
                log_audit log_now (actor_or_unknown actor) ''borrow_book''
                  [Lit ''book:'', IntV bid, Lit '' member:'', IntV mid,
                   Lit '' due:'', DateV (ordinal due)] s1))"

text \<open>
  The rate used by \<open>return_book\<close>: \<open>float(late_fee_setting)\<close> inside
  \<open>try\<close>, with 0.50 when it raises. \<open>py_float\<close> is Python's \<open>float\<close> on a
  string, \<open>None\<close> when it raises ValueError; \<open>float(None)\<close>, for an absent
  setting, raises TypeError.
\<close>

definition late_fee_per_day :: "(string \<Rightarrow> float64 option) \<Rightarrow> db \<Rightarrow> float64" where
  "late_fee_per_day py_float s =
     (case get_setting ''late_fee_per_day'' s of
        None \<Rightarrow> Fin 0.50
      | Some v \<Rightarrow> (case py_float v of None \<Rightarrow> Fin 0.50 | Some r \<Rightarrow> r))"

text \<open>
  The first \<open>SELECT\<close> is given the loan id; as in \<open>borrow_book\<close>, an id that is no
  SQLite integer raises OverflowError where no row is found. The fee is \<open>0.0\<close>, or the
  product of the late days and the rate, an \<open>int\<close> times a \<open>float\<close>. The caller gets
  the float; the row gets what the REAL column holds of it.
\<close>

definition return_book ::
  "(string \<Rightarrow> float64 option) \<Rightarrow> datetime \<Rightarrow> datetime \<Rightarrow> int \<Rightarrow> string option \<Rightarrow> db
    \<Rightarrow> (exn + result) \<times> db" where
  "return_book py_float now log_now lid actor s =
     (case fetchone (\<lambda>l. loan_id l = lid) (loans s) of
        None \<Rightarrow>
          if \<not> sqlite_int lid then (Inl OverflowError, s)
          else (Inr \<lparr>success = False, message = [Lit ''Loan not found.''], late_fee = None\<rparr>, s)
      | Some loan \<Rightarrow>
          if loan_date_returned loan \<noteq> None then
            (Inr \<lparr>success = False, message = [Lit ''Already returned.''], late_fee = None\<rparr>, s)
          else
            let rate = late_fee_per_day py_float s;
                late_days = ordinal now - ordinal (loan_date_due loan);
                fee = (if late_days > 0 then fmul (float_of_int late_days) rate else Fin 0);
                s1 = s\<lparr>loans := update_where (\<lambda>l. loan_id l = lid)
                                  (\<lambda>l. l\<lparr>loan_date_returned := Some now,
                                          loan_late_fee := sqlite_real fee\<rparr>)
                                  (loans s),
                       books := update_where (\<lambda>b. book_id b = loan_book_id loan)
                                  (\<lambda>b. b\<lparr>book_available := 1\<rparr>) (books s)\<rparr>
            in (Inr \<lparr>success = True, message = [Lit ''Returned. Late fee: '', Fix2V fee],
                     late_fee = Some fee\<rparr>,
                log_audit log_now (actor_or_unknown actor) ''return_book''
                  [Lit ''loan:'', IntV lid, Lit '' late_fee:'', FloatV fee] s1))"

section \<open>Constraints, the availability invariant, operation sequences\<close>

text \<open>What the schema enforces on every state: \<open>id\<close> is the PRIMARY KEY of
  \<open>books\<close> and of \<open>loans\<close>, and \<open>username\<close> is UNIQUE.\<close>

definition db_keys :: "db \<Rightarrow> bool" where
  "db_keys s \<longleftrightarrow>
     distinct (map book_id (books s)) \<and> distinct (map loan_id (loans s)) \<and>
     distinct (map user_username (users s))"

definition open_loan :: "loan_row \<Rightarrow> bool" where
  "open_loan l \<longleftrightarrow> loan_date_returned l = None"

definition open_loans_of :: "db \<Rightarrow> int \<Rightarrow> loan_row list" where
  "open_loans_of s bid = filter (\<lambda>l. loan_book_id l = bid \<and> open_loan l) (loans s)"

text \<open>The invariant of the data model: a book is unavailable exactly when an open loan
  references it, and no two open loans reference the same book.\<close>

definition availability_inv :: "db \<Rightarrow> bool" where
  "availability_inv s \<longleftrightarrow>
     list_all (\<lambda>b. (book_available b = 0) = (open_loans_of s (book_id b) \<noteq> [])) (books s) \<and>
     distinct (map loan_book_id (filter open_loan (loans s)))"

datatype op =
    Borrow datetime datetime int int int "string option"
  | Return datetime datetime int "string option"

fun exec_op :: "(string \<Rightarrow> float64 option) \<Rightarrow> op \<Rightarrow> db \<Rightarrow> db" where
  "exec_op py_float (Borrow now log_now bid mid days_due actor) s =
     snd (borrow_book now log_now bid mid days_due actor s)"
| "exec_op py_float (Return now log_now lid actor) s =
     snd (return_book py_float now log_now lid actor s)"

definition exec_ops :: "(string \<Rightarrow> float64 option) \<Rightarrow> op list \<Rightarrow> db \<Rightarrow> db" where
  "exec_ops py_float ops s = fold (exec_op py_float) ops s"

text \<open>What one call leaves in the audit table: \<open>audit_appended s s' a\<close> says that
  \<open>audit_log s'\<close> is \<open>audit_log s\<close> followed by exactly one row, whose actor is
  \<open>a\<close>; \<open>audit_one_row s s'\<close> says the same of a row of any actor.
  \<open>succeeded\<close> holds of a call that returned a dictionary with \<open>success\<close> true.\<close>

definition audit_one_row :: "db \<Rightarrow> db \<Rightarrow> bool" where
  "audit_one_row s s' \<longleftrightarrow> audit_log s' = audit_log s @ [last (audit_log s')]"

definition audit_appended :: "db \<Rightarrow> db \<Rightarrow> string \<Rightarrow> bool" where
  "audit_appended s s' a \<longleftrightarrow>
     audit_log s' = audit_log s @ [last (audit_log s')] \<and> audit_actor (last (audit_log s')) = a"

definition succeeded :: "exn + result \<Rightarrow> bool" where
  "succeeded r = (case r of Inl e \<Rightarrow> False | Inr d \<Rightarrow> success d)"

section \<open>A small library used to run the operations\<close>

definition at_day :: "int \<Rightarrow> datetime" where
  "at_day d = \<lparr>date = Abs_pydate d, micros = 0\<rparr>"

definition dune :: book_row where
  "dune = \<lparr>book_id = 1, book_title = ''Dune'', book_author = Some ''Herbert'',
           book_category = None, book_isbn = None, book_available = 0\<rparr>"

definition emma :: book_row where
  "emma = \<lparr>book_id = 2, book_title = ''Emma'', book_author = Some ''Austen'',
           book_category = None, book_isbn = None, book_available = 1\<rparr>"

definition loan_dune :: loan_row where
  "loan_dune = \<lparr>loan_id = 1, loan_book_id = 1, loan_member_id = 1,
                loan_date_borrowed = at_day 738000, loan_date_due = at_day 738014,
                loan_date_returned = None, loan_late_fee = Some (Fin 0)\<rparr>"

definition loan_emma :: loan_row where
  "loan_emma = \<lparr>loan_id = 2, loan_book_id = 2, loan_member_id = 1,
                loan_date_borrowed = at_day 738000, loan_date_due = at_day 738014,
                loan_date_returned = Some (at_day 738016), loan_late_fee = Some (Fin 1)\<rparr>"

text \<open>A stand-in for bcrypt with its limit of 72 bytes: the hash is the two-character
  salt followed by the password.\<close>

definition toy_hashpw :: "string \<Rightarrow> string \<Rightarrow> string option" where
  "toy_hashpw password salt = (if 72 < length password then None else Some (salt @ password))"

definition toy_checkpw :: "string \<Rightarrow> string \<Rightarrow> bool option" where
  "toy_checkpw password hashed =
     (if 72 < length password \<or> length hashed < 2 then None
      else Some (drop 2 hashed = password))"

text \<open>Python's \<open>float\<close> on the few texts used below: \<open>float("0.1")\<close> is the
  binary64 number nearest to one tenth, \<open>3602879701896397 / 2 ^ 55\<close>.\<close>

definition toy_float :: "string \<Rightarrow> float64 option" where
  "toy_float v =
     (if v = ''0.50'' then Some (Fin 0.50)
      else if v = ''0.75'' then Some (Fin 0.75)
      else if v = ''0.1'' then Some (Fin (3602879701896397 / 36028797018963968))
      else if v = ''nan'' then Some NaN
      else None)"

definition long_password :: string where
  "long_password = replicate 73 CHR ''x''"

definition library :: db where
  "library = \<lparr>books = [dune, emma],
              members = [\<lparr>member_id = 1, member_name = ''Ann'', member_email = None\<rparr>],
              loans = [loan_dune, loan_emma],
              settings = [(''late_fee_per_day'', ''0.50'')],
              users = [\<lparr>user_id = 1, user_username = ''admin'',
                        user_password_hash = ''s1admin'', user_role = ''admin''\<rparr>],
              audit_log = [],
              seq_books = 2, seq_members = 1, seq_loans = 2, seq_users = 1, seq_audit_log = 0\<rparr>"

section \<open>Facts about dates and floats\<close>

lemma ordinal_at_day: "date_in_range d \<Longrightarrow> ordinal (at_day d) = d"
  by (simp add: ordinal_def at_day_def date_in_range_def Abs_pydate_inverse)

lemma ordinal_range: "1 \<le> ordinal t \<and> ordinal t \<le> 3652059"
  using Rep_pydate [of "date t"] by (simp add: ordinal_def)

lemma pow2_powr: "pow2 k = 2 powr (of_int k)"
proof (cases "0 \<le> k")
  case True
  then have "(2::real) powr (of_int k) = 2 powr (real (nat k))" by simp
  also have "\<dots> = 2 ^ nat k" by (rule powr_realpow) simp
  finally show ?thesis using True by (simp add: pow2_def)
next
  case False
  then have "(2::real) powr (of_int k) = 2 powr (- real (nat (- k)))" by simp
  also have "\<dots> = 1 / 2 powr (real (nat (- k)))" by (simp add: powr_minus divide_inverse)
  also have "2 powr (real (nat (- k))) = (2::real) ^ nat (- k)" by (rule powr_realpow) simp
  finally show ?thesis using False by (simp add: pow2_def)
qed

lemma pow2_pos: "0 < pow2 k"
  by (simp add: pow2_powr)

lemma pow2_add: "pow2 (a + b) = pow2 a * pow2 b"
  by (simp add: pow2_powr powr_add)

lemma pow2_less_iff: "pow2 a < pow2 b \<longleftrightarrow> a < b"
  by (simp add: pow2_powr)

lemma pow2_le_iff: "pow2 a \<le> pow2 b \<longleftrightarrow> a \<le> b"
  by (simp add: pow2_powr)

lemma pow2_nonneg_int: "0 \<le> k \<Longrightarrow> pow2 k = of_int (2 ^ nat k)"
  by (simp add: pow2_def)

lemma flog2_bounds:
  assumes "0 < a"
  shows "pow2 (flog2 a) \<le> a" and "a < pow2 (flog2 a + 1)"
proof -
  have "pow2 (flog2 a) \<le> a \<and> a < pow2 (flog2 a + 1)"
  proof (cases "1 \<le> a")
    case True
    define m where "m = \<lfloor>a\<rfloor>"
    have m: "0 < m" using True by (simp add: m_def)
    have e: "flog2 a = bitlen m - 1" using True by (simp add: flog2_def m_def)
    have b1: "1 \<le> bitlen m" using m by (simp add: bitlen_alt_def)
    from bitlen_bounds [OF m]
    have lo: "2 ^ nat (bitlen m - 1) \<le> m" and hi: "m < 2 ^ nat (bitlen m)" by simp_all
    have "pow2 (bitlen m - 1) = of_int (2 ^ nat (bitlen m - 1))"
      using b1 by (intro pow2_nonneg_int) simp
    also have "\<dots> \<le> of_int m" using lo by (simp only: of_int_le_iff)
    also have "\<dots> \<le> a" by (simp add: m_def)
    finally have l: "pow2 (flog2 a) \<le> a" by (simp add: e)
    have "a < of_int (m + 1)" by (simp add: m_def)
    also have "\<dots> \<le> of_int (2 ^ nat (bitlen m))" using hi by (simp only: of_int_le_iff)
    also have "\<dots> = pow2 (bitlen m)" using b1 by (intro pow2_nonneg_int [symmetric]) simp
    finally have "a < pow2 (flog2 a + 1)" by (simp add: e)
    with l show ?thesis ..
  next
    case False
    define m where "m = \<lceil>1 / a\<rceil> - 1"
    have inv: "1 < 1 / a" using assms False by simp
    then have "1 < \<lceil>1 / a\<rceil>" by (simp add: less_ceiling_iff)
    then have m: "0 < m" by (simp add: m_def)
    have e: "flog2 a = - bitlen m" using False by (simp add: flog2_def m_def)
    have b1: "1 \<le> bitlen m" using m by (simp add: bitlen_alt_def)
    from bitlen_bounds [OF m]
    have lo: "2 ^ nat (bitlen m - 1) \<le> m" and hi: "m < 2 ^ nat (bitlen m)" by simp_all
    have "1 / a \<le> of_int (m + 1)" by (simp add: m_def)
    also have "\<dots> \<le> of_int (2 ^ nat (bitlen m))" using hi by (simp only: of_int_le_iff)
    also have "\<dots> = pow2 (bitlen m)" using b1 by (intro pow2_nonneg_int [symmetric]) simp
    finally have "1 / a \<le> pow2 (bitlen m)" .
    then have "1 \<le> pow2 (bitlen m) * a" using assms by (simp add: field_simps)
    moreover have "pow2 (- bitlen m) * pow2 (bitlen m) = 1"
      using pow2_add [of "- bitlen m" "bitlen m"] by (simp add: pow2_def)
    ultimately have l: "pow2 (- bitlen m) \<le> a"
      using pow2_pos [of "- bitlen m"] pow2_pos [of "bitlen m"]
      by (metis mult.assoc mult.right_neutral mult_le_cancel_left_pos)
    have "pow2 (bitlen m - 1) = of_int (2 ^ nat (bitlen m - 1))"
      using b1 by (intro pow2_nonneg_int) simp
    also have "\<dots> \<le> of_int m" using lo by (simp only: of_int_le_iff)
    also have "of_int m < 1 / a" using ceiling_correct [of "1 / a"] by (simp add: m_def)
    finally have "pow2 (bitlen m - 1) * a < 1" using assms by (simp add: field_simps)
    moreover have "pow2 (1 - bitlen m) * pow2 (bitlen m - 1) = 1"
      using pow2_add [of "1 - bitlen m" "bitlen m - 1"] by (simp add: pow2_def)
    ultimately have "a < pow2 (1 - bitlen m)"
      using pow2_pos [of "1 - bitlen m"] pow2_pos [of "bitlen m - 1"]
      by (metis mult.assoc mult.right_neutral mult_less_cancel_left_pos)
    with l e show ?thesis by (simp add: algebra_simps)
  qed
  then show "pow2 (flog2 a) \<le> a" and "a < pow2 (flog2 a + 1)" by simp_all
qed

lemma round_half_even_int: "round_half_even (of_int z) = z"
  by (simp add: round_half_even_def)

text \<open>A number with at most 53 significant bits and an exponent in range is a float:
  rounding leaves it as it is.\<close>

lemma round64_exact:
  assumes m: "0 < m" "m < 2 ^ 53" and t: "- 1074 \<le> t" "t \<le> 970"
  shows "round64 False (of_int m * pow2 t) = Fin (of_int m * pow2 t)"
proof -
  define a where "a = of_int m * pow2 t"
  have a: "0 < a" using m(1) pow2_pos [of t] by (simp add: a_def)
  define e where "e = max (flog2 a) (- 1022)"
  have "of_int m < pow2 53"
    using m(2) by (simp add: pow2_def)
  then have hi: "a < pow2 (53 + t)"
    using pow2_pos [of t] by (simp add: a_def pow2_add)
  from flog2_bounds(1) [OF a] hi have "pow2 (flog2 a) < pow2 (53 + t)" by simp
  then have "flog2 a < 53 + t" by (simp only: pow2_less_iff)
  then have j: "0 \<le> t - (e - 52)" using t(1) by (simp add: e_def)
  define j where "j = t - (e - 52)"
  have tj: "t = j + (e - 52)" by (simp add: j_def)
  have j0: "0 \<le> j" using j by (simp add: j_def)
  have q: "a / pow2 (e - 52) = of_int (m * 2 ^ nat j)"
    using pow2_pos [of "e - 52"] j0
    by (simp add: a_def tj pow2_add pow2_nonneg_int del: of_int_mult)
       (simp add: pow2_def)
  have n: "round_half_even (a / pow2 (e - 52)) = m * 2 ^ nat j"
    unfolding q by (rule round_half_even_int)
  have r: "of_int (m * 2 ^ nat j) * pow2 (e - 52) = a"
    using q pow2_pos [of "e - 52"] by (simp add: field_simps)
  have "pow2 (53 + t) \<le> pow2 1024" using t(2) by (simp only: pow2_le_iff)
  with hi have small: "\<not> pow2 1024 \<le> a" by simp
  have nz: "m * 2 ^ nat j \<noteq> 0" using m(1) by simp
  have "round64 False a = Fin a"
    using a small nz
    by (simp add: round64_def Let_def e_def [symmetric] n r del: of_int_mult of_int_power)
  then show ?thesis by (simp add: a_def)
qed

lemma float_of_int_exact: "0 < d \<Longrightarrow> d < 2 ^ 53 \<Longrightarrow> float_of_int d = Fin (of_int d)"
  using round64_exact [of d 0] by (simp add: float_of_int_def pow2_def)

lemma fmul_half_exact:
  "0 < d \<Longrightarrow> d < 2 ^ 53 \<Longrightarrow> fmul (Fin (of_int d)) (Fin 0.50) = Fin (of_int d * 0.50)"
  using round64_exact [of d "- 1"] by (simp add: fmul_def pow2_def)

text \<open>The days between two dates convert to a float exactly.\<close>

lemma float_of_late_days:
  assumes "0 < ordinal now - ordinal due"
  shows "float_of_int (ordinal now - ordinal due) = Fin (of_int (ordinal now - ordinal due))"
    and "ordinal now - ordinal due < 2 ^ 53"
proof -
  show b: "ordinal now - ordinal due < 2 ^ 53"
    using ordinal_range [of now] ordinal_range [of due] by simp
  from assms b show "float_of_int (ordinal now - ordinal due) =
      Fin (of_int (ordinal now - ordinal due))"
    by (rule float_of_int_exact)
qed

section \<open>Facts about the SQL statements\<close>

lemma fetchone_key_member:
  "distinct (map k rows) \<Longrightarrow> r \<in> set rows \<Longrightarrow> fetchone (\<lambda>x. k x = k r) rows = Some r"
  unfolding fetchone_def
proof (induction rows)
  case Nil
  then show ?case by simp
next
  case (Cons a rows)
  then show ?case by (cases "k a = k r") force+
qed

lemma fetchone_key_absent:
  "v \<notin> k ` set rows \<Longrightarrow> fetchone (\<lambda>x. k x = v) rows = None"
  unfolding fetchone_def by (induction rows) auto

lemma fetchone_SomeD:
  "fetchone p rows = Some r \<Longrightarrow> r \<in> set rows \<and> p r"
  unfolding fetchone_def by (auto simp: find_Some_iff)

lemma fetchone_update_where_key:
  assumes "distinct (map k rows)" and "r \<in> set rows" and "\<And>x. k (f x) = k x"
  shows "fetchone (\<lambda>x. k x = k r) (update_where (\<lambda>x. k x = k r) f rows) = Some (f r)"
proof -
  have d: "distinct (map k (update_where (\<lambda>x. k x = k r) f rows))"
    using assms(1,3) by (simp add: update_where_def comp_def if_distrib [of k] cong: if_cong)
  have m: "f r \<in> set (update_where (\<lambda>x. k x = k r) f rows)"
    using assms(2) by (force simp: update_where_def)
  from fetchone_key_member [OF d m] assms(3) show ?thesis by simp
qed

lemma update_where_none:
  "\<forall>r\<in>set rows. \<not> p r \<Longrightarrow> update_where p f rows = rows"
  unfolding update_where_def by (induction rows) auto

lemma filter_update_where_rest:
  assumes "\<And>x. p (f x) = p x"
  shows "filter (\<lambda>x. \<not> p x) (update_where p f rows) = filter (\<lambda>x. \<not> p x) rows"
  unfolding update_where_def using assms by (induction rows) auto


section \<open>Borrowing\<close>

text \<open>
  Claim C5, as stated, fails for a book id outside SQLite's integers: no row holds
  \<open>2 ^ 63\<close>, and borrowing it raises OverflowError instead of returning the failure
  "Book not found.".
\<close>

theorem borrow_book_id_out_of_range:
  "9223372036854775808 \<notin> book_id ` set (books library) \<and>
   borrow_book (at_day 738020) (at_day 738020) 9223372036854775808 1 14 (Some ''admin'')
       library = (Inl OverflowError, library) \<and>
   fst (borrow_book (at_day 738020) (at_day 738020) 9223372036854775808 1 14 (Some ''admin'')
       library) \<noteq>
     Inr \<lparr>success = False, message = [Lit ''Book not found.''], late_fee = None\<rparr>"
  by (simp add: borrow_book_def fetchone_def sqlite_int_def library_def dune_def emma_def)

text \<open>
  Claim C5, amended. Borrowing a book whose \<open>available\<close> flag is 0 returns the failure
  "Book currently not available." whatever the member (and the days and the actor);
  borrowing a book id that no row holds returns the failure "Book not found." when the id
  is a SQLite integer (signed, 64 bits), and raises OverflowError when it is not. In all
  three cases the state is the state given: no loan row is inserted and no book row is
  changed.
\<close>

theorem borrow_book_unavailable_or_missing:
  assumes "distinct (map book_id (books s))"
  shows "(b \<in> set (books s) \<and> book_available b = 0 \<longrightarrow>
            borrow_book now log_now (book_id b) mid days_due actor s =
              (Inr \<lparr>success = False, message = [Lit ''Book currently not available.''],
                     late_fee = None\<rparr>, s)) \<and>
         (bid \<notin> book_id ` set (books s) \<and> sqlite_int bid \<longrightarrow>
            borrow_book now log_now bid mid days_due actor s =
              (Inr \<lparr>success = False, message = [Lit ''Book not found.''], late_fee = None\<rparr>, s)) \<and>
         (bid \<notin> book_id ` set (books s) \<and> \<not> sqlite_int bid \<longrightarrow>
            borrow_book now log_now bid mid days_due actor s = (Inl OverflowError, s))"
proof -
  have unavailable: "borrow_book now log_now (book_id b) mid days_due actor s =
      (Inr \<lparr>success = False, message = [Lit ''Book currently not available.''],
             late_fee = None\<rparr>, s)"
    if "b \<in> set (books s) \<and> book_available b = 0"
  proof -
    from that
    have "fetchone (\<lambda>x. book_id x = book_id b) (books s) = Some b" and "book_available b = 0"
      using assms fetchone_key_member [of book_id "books s" b] by simp_all
    then show ?thesis by (simp add: borrow_book_def)
  qed
  have missing: "fetchone (\<lambda>x. book_id x = bid) (books s) = None"
    if "bid \<notin> book_id ` set (books s)"
    using that by (rule fetchone_key_absent)
  have "borrow_book now log_now bid mid days_due actor s =
      (Inr \<lparr>success = False, message = [Lit ''Book not found.''], late_fee = None\<rparr>, s)"
    if "bid \<notin> book_id ` set (books s) \<and> sqlite_int bid"
    using that missing by (simp add: borrow_book_def)
  moreover have "borrow_book now log_now bid mid days_due actor s = (Inl OverflowError, s)"
    if "bid \<notin> book_id ` set (books s) \<and> \<not> sqlite_int bid"
    using that missing by (simp add: borrow_book_def)
  ultimately show ?thesis using unavailable by blast
qed

theorem borrow_book_unavailable_or_missing_witness:
  "distinct (map book_id (books library)) \<and>
   dune \<in> set (books library) \<and> book_available dune = 0 \<and>
   borrow_book (at_day 738020) (at_day 738020) (book_id dune) 7 14 (Some ''admin'') library =
     (Inr \<lparr>success = False, message = [Lit ''Book currently not available.''],
            late_fee = None\<rparr>, library) \<and>
   9 \<notin> book_id ` set (books library) \<and> sqlite_int 9 \<and>
   borrow_book (at_day 738020) (at_day 738020) 9 7 14 (Some ''admin'') library =
     (Inr \<lparr>success = False, message = [Lit ''Book not found.''], late_fee = None\<rparr>, library) \<and>
   - 9223372036854775809 \<notin> book_id ` set (books library) \<and>
   \<not> sqlite_int (- 9223372036854775809) \<and>
   borrow_book (at_day 738020) (at_day 738020) (- 9223372036854775809) 7 14 (Some ''admin'')
     library = (Inl OverflowError, library)"
proof -
  have k: "distinct (map book_id (books library))"
    by (simp add: library_def dune_def emma_def)
  have m: "dune \<in> set (books library) \<and> book_available dune = 0"
    by (simp add: library_def dune_def)
  have a: "9 \<notin> book_id ` set (books library) \<and> sqlite_int 9"
    by (simp add: library_def dune_def emma_def sqlite_int_def)
  have o: "- 9223372036854775809 \<notin> book_id ` set (books library) \<and>
      \<not> sqlite_int (- 9223372036854775809)"
    by (simp add: library_def dune_def emma_def sqlite_int_def)
  note t1 = borrow_book_unavailable_or_missing [OF k, where b = dune and now = "at_day 738020"
      and log_now = "at_day 738020" and mid = 7 and days_due = 14 and actor = "Some ''admin''"
      and bid = 9]
  note t2 = borrow_book_unavailable_or_missing [OF k, where b = dune and now = "at_day 738020"
      and log_now = "at_day 738020" and mid = 7 and days_due = 14 and actor = "Some ''admin''"
      and bid = "- 9223372036854775809"]
  show ?thesis
    using k m a o t1 t2 by blast
qed

section \<open>Returning\<close>

text \<open>
  Claim C4. Calling \<open>return_book\<close> with the id of a loan whose \<open>date_returned\<close>
  is not null returns the failure "Already returned." and the state given: the loan's
  \<open>late_fee\<close> and \<open>date_returned\<close>, and every other row, are unchanged.
\<close>

theorem return_book_already_returned:
  assumes "distinct (map loan_id (loans s))"
    and "l \<in> set (loans s)"
    and "loan_date_returned l \<noteq> None"
  shows "return_book py_float now log_now (loan_id l) actor s =
           (Inr \<lparr>success = False, message = [Lit ''Already returned.''], late_fee = None\<rparr>, s)"
proof -
  have "fetchone (\<lambda>x. loan_id x = loan_id l) (loans s) = Some l"
    using assms(1,2) by (rule fetchone_key_member)
  with assms(3) show ?thesis
    by (simp add: return_book_def)
qed

theorem return_book_already_returned_witness:
  "distinct (map loan_id (loans library)) \<and> loan_emma \<in> set (loans library) \<and>
   loan_date_returned loan_emma \<noteq> None \<and>
   return_book toy_float (at_day 738030) (at_day 738030) (loan_id loan_emma) None library =
     (Inr \<lparr>success = False, message = [Lit ''Already returned.''], late_fee = None\<rparr>, library)"
proof -
  have k: "distinct (map loan_id (loans library))"
    by (simp add: library_def loan_dune_def loan_emma_def)
  have m: "loan_emma \<in> set (loans library)"
    by (simp add: library_def)
  have r: "loan_date_returned loan_emma \<noteq> None"
    by (simp add: loan_emma_def)
  show ?thesis
    using k m r return_book_already_returned [OF k m r, of toy_float "at_day 738030" "at_day 738030" None]
    by simp
qed

section \<open>Authentication\<close>

text \<open>
  Claim C6. \<open>verify_user\<close> returns the boolean \<open>False\<close>, and raises nothing, both
  when no row of \<open>users\<close> holds the username and when a row holds it but the password
  does not match its stored hash (\<open>checkpw\<close> answers \<open>False\<close> or raises).
\<close>

theorem verify_user_unknown_or_mismatch:
  assumes "distinct (map user_username (users s))"
  shows "(username \<notin> user_username ` set (users s) \<longrightarrow>
            verify_user checkpw username password_plain s = False) \<and>
         (u \<in> set (users s) \<and> checkpw password_plain (user_password_hash u) \<noteq> Some True \<longrightarrow>
            verify_user checkpw (user_username u) password_plain s = False)"
proof (intro conjI impI)
  assume "username \<notin> user_username ` set (users s)"
  then have "fetchone (\<lambda>x. user_username x = username) (users s) = None"
    by (rule fetchone_key_absent)
  then show "verify_user checkpw username password_plain s = False"
    by (simp add: verify_user_def)
next
  assume h: "u \<in> set (users s) \<and> checkpw password_plain (user_password_hash u) \<noteq> Some True"
  then have "fetchone (\<lambda>x. user_username x = user_username u) (users s) = Some u"
    using assms fetchone_key_member [of user_username "users s" u] by simp
  with h show "verify_user checkpw (user_username u) password_plain s = False"
    by (auto simp: verify_user_def split: option.splits)
qed

theorem verify_user_unknown_or_mismatch_witness:
  "distinct (map user_username (users library)) \<and>
   ''bob'' \<notin> user_username ` set (users library) \<and>
   verify_user toy_checkpw ''bob'' ''guess'' library = False \<and>
   hd (users library) \<in> set (users library) \<and>
   toy_checkpw ''guess'' (user_password_hash (hd (users library))) \<noteq> Some True \<and>
   verify_user toy_checkpw (user_username (hd (users library))) ''guess'' library = False"
proof -
  have k: "distinct (map user_username (users library))"
    by (simp add: library_def)
  have a: "''bob'' \<notin> user_username ` set (users library)"
    by (simp add: library_def)
  have m: "hd (users library) \<in> set (users library) \<and>
      toy_checkpw ''guess'' (user_password_hash (hd (users library))) \<noteq> Some True"
    by (simp add: library_def toy_checkpw_def)
  show ?thesis
    using k a m
      verify_user_unknown_or_mismatch [OF k, where username = "''bob''" and checkpw = toy_checkpw
        and password_plain = "''guess''" and u = "hd (users library)"]
    by simp
qed

text \<open>
  Claim C7, as stated, fails when bcrypt rejects the new password: the administrator
  gives the right old password and a new one of 73 bytes; the call raises ValueError,
  returns no success, and the stored hash is the old one.
\<close>

theorem change_user_password_rejected_new_password:
  "verify_user toy_checkpw ''admin'' ''admin'' library \<and>
   change_user_password toy_checkpw toy_hashpw ''s2'' (at_day 738020) ''admin'' ''admin''
       long_password library = (Inl ValueError, library)"
  by (simp add: change_user_password_def verify_user_def fetchone_def toy_checkpw_def
      toy_hashpw_def long_password_def library_def)

text \<open>
  Claim C7, amended. For a user row \<open>u\<close>: when the old password does not verify against
  the stored hash, \<open>change_user_password\<close> returns \<open>success = False\<close> and the state
  given (the stored hash and everything else unchanged, no audit row). When it verifies
  and bcrypt hashes the new password, the call returns \<open>success = True\<close> and the row of
  that username now holds the new hash, every other user row being as before. When it
  verifies and bcrypt rejects the new password, the call raises and the state is the
  state given.
\<close>

theorem change_user_password_old_password:
  assumes "distinct (map user_username (users s))" and "u \<in> set (users s)"
  shows "(checkpw old_password_plain (user_password_hash u) \<noteq> Some True \<longrightarrow>
            change_user_password checkpw hashpw salt log_now (user_username u)
                old_password_plain new_password_plain s =
              (Inr \<lparr>success = False, message = [Lit ''Current password incorrect.''],
                     late_fee = None\<rparr>, s)) \<and>
         (checkpw old_password_plain (user_password_hash u) = Some True \<and>
          hashpw new_password_plain salt = Some hashed \<longrightarrow>
            fst (change_user_password checkpw hashpw salt log_now (user_username u)
                  old_password_plain new_password_plain s) =
              Inr \<lparr>success = True, message = [Lit ''Password changed.''], late_fee = None\<rparr> \<and>
            fetchone (\<lambda>x. user_username x = user_username u)
                (users (snd (change_user_password checkpw hashpw salt log_now (user_username u)
                  old_password_plain new_password_plain s))) =
              Some (u\<lparr>user_password_hash := hashed\<rparr>) \<and>
            filter (\<lambda>x. user_username x \<noteq> user_username u)
                (users (snd (change_user_password checkpw hashpw salt log_now (user_username u)
                  old_password_plain new_password_plain s))) =
              filter (\<lambda>x. user_username x \<noteq> user_username u) (users s)) \<and>
         (checkpw old_password_plain (user_password_hash u) = Some True \<and>
          hashpw new_password_plain salt = None \<longrightarrow>
            change_user_password checkpw hashpw salt log_now (user_username u)
                old_password_plain new_password_plain s = (Inl ValueError, s))"
proof -
  have f: "fetchone (\<lambda>x. user_username x = user_username u) (users s) = Some u"
    using assms by (rule fetchone_key_member)
  have v: "verify_user checkpw (user_username u) old_password_plain s =
      (checkpw old_password_plain (user_password_hash u) = Some True)"
    using f by (auto simp: verify_user_def split: option.splits)
  have n: "fetchone (\<lambda>x. user_username x = user_username u)
      (update_where (\<lambda>x. user_username x = user_username u)
         (\<lambda>r. r\<lparr>user_password_hash := hashed\<rparr>) (users s)) =
      Some (u\<lparr>user_password_hash := hashed\<rparr>)"
    using assms by (rule fetchone_update_where_key) simp
  have o: "filter (\<lambda>x. user_username x \<noteq> user_username u)
      (update_where (\<lambda>x. user_username x = user_username u)
         (\<lambda>r. r\<lparr>user_password_hash := hashed\<rparr>) (users s)) =
      filter (\<lambda>x. user_username x \<noteq> user_username u) (users s)"
    by (rule filter_update_where_rest) simp
  show ?thesis
    using v n o by (simp add: change_user_password_def log_audit_def Let_def)
qed

theorem change_user_password_old_password_witness:
  "distinct (map user_username (users library)) \<and> hd (users library) \<in> set (users library) \<and>
   toy_checkpw ''guess'' (user_password_hash (hd (users library))) \<noteq> Some True \<and>
   change_user_password toy_checkpw toy_hashpw ''s2'' (at_day 738020)
       (user_username (hd (users library))) ''guess'' ''fresh'' library =
     (Inr \<lparr>success = False, message = [Lit ''Current password incorrect.''],
            late_fee = None\<rparr>, library) \<and>
   toy_checkpw ''admin'' (user_password_hash (hd (users library))) = Some True \<and>
   toy_hashpw ''fresh'' ''s2'' = Some ''s2fresh'' \<and>
   fst (change_user_password toy_checkpw toy_hashpw ''s2'' (at_day 738020)
       (user_username (hd (users library))) ''admin'' ''fresh'' library) =
     Inr \<lparr>success = True, message = [Lit ''Password changed.''], late_fee = None\<rparr> \<and>
   fetchone (\<lambda>x. user_username x = user_username (hd (users library)))
       (users (snd (change_user_password toy_checkpw toy_hashpw ''s2'' (at_day 738020)
          (user_username (hd (users library))) ''admin'' ''fresh'' library))) =
     Some ((hd (users library))\<lparr>user_password_hash := ''s2fresh''\<rparr>) \<and>
   toy_hashpw long_password ''s2'' = None \<and>
   change_user_password toy_checkpw toy_hashpw ''s2'' (at_day 738020)
       (user_username (hd (users library))) ''admin'' long_password library =
     (Inl ValueError, library)"
proof -
  have k: "distinct (map user_username (users library))"
    by (simp add: library_def)
  have m: "hd (users library) \<in> set (users library)"
    by (simp add: library_def)
  have w: "toy_checkpw ''guess'' (user_password_hash (hd (users library))) \<noteq> Some True"
    by (simp add: library_def toy_checkpw_def)
  have c: "toy_checkpw ''admin'' (user_password_hash (hd (users library))) = Some True"
    by (simp add: library_def toy_checkpw_def)
  have h: "toy_hashpw ''fresh'' ''s2'' = Some ''s2fresh''"
    by (simp add: toy_hashpw_def)
  have r: "toy_hashpw long_password ''s2'' = None"
    by (simp add: toy_hashpw_def long_password_def)
  note t1 = change_user_password_old_password [OF k m, where checkpw = toy_checkpw
      and old_password_plain = "''guess''" and hashpw = toy_hashpw and salt = "''s2''"
      and log_now = "at_day 738020" and new_password_plain = "''fresh''"
      and hashed = "''s2fresh''"]
  note t2 = change_user_password_old_password [OF k m, where checkpw = toy_checkpw
      and old_password_plain = "''admin''" and hashpw = toy_hashpw and salt = "''s2''"
      and log_now = "at_day 738020" and new_password_plain = "''fresh''"
      and hashed = "''s2fresh''"]
  note t3 = change_user_password_old_password [OF k m, where checkpw = toy_checkpw
      and old_password_plain = "''admin''" and hashpw = toy_hashpw and salt = "''s2''"
      and log_now = "at_day 738020" and new_password_plain = long_password
      and hashed = "''s2fresh''"]
  show ?thesis
    using k m w c h r t1 t2 t3 by blast
qed

text \<open>
  Claim C9, as stated, fails when bcrypt rejects the new password: resetting the
  password of a username that no row holds to one of 73 bytes raises ValueError, with
  no success returned and no audit row written.
\<close>

theorem admin_reset_password_rejected_password:
  "''ghost'' \<notin> user_username ` set (users library) \<and>
   admin_reset_password toy_hashpw ''s3'' (at_day 738020) ''admin'' ''ghost'' long_password
       library = (Inl ValueError, library)"
  by (simp add: admin_reset_password_def toy_hashpw_def long_password_def library_def)

text \<open>
  Claim C9, amended. When no row of \<open>users\<close> holds the target username and bcrypt
  hashes the new password, \<open>admin_reset_password\<close> reports no error: it returns
  \<open>success = True\<close>, the \<open>UPDATE\<close> changes no row, and one audit row with action
  \<open>admin_reset_password\<close> that names the administrator and the target is appended.
  When bcrypt rejects the new password the call raises and the state is the state
  given.
\<close>

theorem admin_reset_password_unknown_target:
  assumes "target_username \<notin> user_username ` set (users s)"
  shows "(hashpw new_password_plain salt = Some hashed \<longrightarrow>
           fst (admin_reset_password hashpw salt log_now admin_username target_username
                  new_password_plain s) =
             Inr \<lparr>success = True,
                   message = [Lit ''Password for '', StrV target_username, Lit '' reset.''],
                   late_fee = None\<rparr> \<and>
           users (snd (admin_reset_password hashpw salt log_now admin_username target_username
                  new_password_plain s)) = users s \<and>
           audit_log (snd (admin_reset_password hashpw salt log_now admin_username
                  target_username new_password_plain s)) =
             audit_log s @
               [\<lparr>audit_id = next_rowid (seq_audit_log s) (map audit_id (audit_log s)),
                 audit_actor = admin_username, audit_action = ''admin_reset_password'',
                 audit_details =
                   [Lit ''admin '', Lit quote, StrV admin_username, Lit quote,
                    Lit '' reset password for '', Lit quote, StrV target_username, Lit quote],
                 audit_created_at = log_now\<rparr>]) \<and>
         (hashpw new_password_plain salt = None \<longrightarrow>
           admin_reset_password hashpw salt log_now admin_username target_username
                  new_password_plain s = (Inl ValueError, s))"
proof -
  have "\<forall>r\<in>set (users s). \<not> user_username r = target_username"
    using assms by auto
  then have "update_where (\<lambda>r. user_username r = target_username)
      (\<lambda>r. r\<lparr>user_password_hash := hashed\<rparr>) (users s) = users s"
    by (rule update_where_none)
  then show ?thesis
    by (simp add: admin_reset_password_def log_audit_def Let_def)
qed

theorem admin_reset_password_unknown_target_witness:
  "''ghost'' \<notin> user_username ` set (users library) \<and>
   toy_hashpw ''pw'' ''s3'' = Some ''s3pw'' \<and>
   succeeded (fst (admin_reset_password toy_hashpw ''s3'' (at_day 738020) ''admin'' ''ghost''
                ''pw'' library)) \<and>
   users (snd (admin_reset_password toy_hashpw ''s3'' (at_day 738020) ''admin'' ''ghost''
                ''pw'' library)) = users library \<and>
   map audit_actor (audit_log (snd (admin_reset_password toy_hashpw ''s3'' (at_day 738020)
                ''admin'' ''ghost'' ''pw'' library))) = [''admin''] \<and>
   toy_hashpw long_password ''s3'' = None \<and>
   admin_reset_password toy_hashpw ''s3'' (at_day 738020) ''admin'' ''ghost'' long_password
       library = (Inl ValueError, library)"
proof -
  have a: "''ghost'' \<notin> user_username ` set (users library)"
    by (simp add: library_def)
  have e: "audit_log library = []"
    by (simp add: library_def)
  have h: "toy_hashpw ''pw'' ''s3'' = Some ''s3pw''"
    by (simp add: toy_hashpw_def)
  have r: "toy_hashpw long_password ''s3'' = None"
    by (simp add: toy_hashpw_def long_password_def)
  note t1 = admin_reset_password_unknown_target [OF a, where hashpw = toy_hashpw
      and salt = "''s3''" and log_now = "at_day 738020" and admin_username = "''admin''"
      and new_password_plain = "''pw''" and hashed = "''s3pw''"]
  note t2 = admin_reset_password_unknown_target [OF a, where hashpw = toy_hashpw
      and salt = "''s3''" and log_now = "at_day 738020" and admin_username = "''admin''"
      and new_password_plain = long_password and hashed = "''s3pw''"]
  from t1 h e have
    "succeeded (fst (admin_reset_password toy_hashpw ''s3'' (at_day 738020) ''admin'' ''ghost''
        ''pw'' library))"
    "users (snd (admin_reset_password toy_hashpw ''s3'' (at_day 738020) ''admin'' ''ghost''
        ''pw'' library)) = users library"
    "map audit_actor (audit_log (snd (admin_reset_password toy_hashpw ''s3'' (at_day 738020)
        ''admin'' ''ghost'' ''pw'' library))) = [''admin'']"
    by (simp_all add: succeeded_def)
  moreover from t2 r have
    "admin_reset_password toy_hashpw ''s3'' (at_day 738020) ''admin'' ''ghost'' long_password
       library = (Inl ValueError, library)"
    by blast
  ultimately show ?thesis
    using a h r by blast
qed

section \<open>Deleting a book\<close>




section \<open>The late fee\<close>

lemma return_book_open:
  fixes l :: loan_row and py_float :: "string \<Rightarrow> float64 option"
  defines "fee rt nw \<equiv>
    (if ordinal nw - ordinal (loan_date_due l) > 0
     then fmul (float_of_int (ordinal nw - ordinal (loan_date_due l))) rt else Fin 0)"
  assumes "distinct (map loan_id (loans s))" and "l \<in> set (loans s)"
    and "loan_date_returned l = None"
  shows "return_book py_float now log_now (loan_id l) actor s =
      (Inr \<lparr>success = True,
        message = [Lit ''Returned. Late fee: '', Fix2V (fee (late_fee_per_day py_float s) now)],
        late_fee = Some (fee (late_fee_per_day py_float s) now)\<rparr>,
       log_audit log_now (actor_or_unknown actor) ''return_book''
         [Lit ''loan:'', IntV (loan_id l), Lit '' late_fee:'',
          FloatV (fee (late_fee_per_day py_float s) now)]
         (s\<lparr>loans := update_where (\<lambda>x. loan_id x = loan_id l)
                        (\<lambda>x. x\<lparr>loan_date_returned := Some now,
                                loan_late_fee :=
                                  sqlite_real (fee (late_fee_per_day py_float s) now)\<rparr>)
                        (loans s),
            books := update_where (\<lambda>b. book_id b = loan_book_id l)
                        (\<lambda>b. b\<lparr>book_available := 1\<rparr>) (books s)\<rparr>))"
proof -
  have "fetchone (\<lambda>x. loan_id x = loan_id l) (loans s) = Some l"
    using assms(2,3) by (rule fetchone_key_member)
  then show ?thesis
    using assms(4) by (simp add: return_book_def fee_def Let_def)
qed

text \<open>The fee of an open loan, with the days converted exactly.\<close>

lemma return_book_open_fee:
  assumes "distinct (map loan_id (loans s))" and "l \<in> set (loans s)"
    and "loan_date_returned l = None"
    and "fee = (if ordinal now - ordinal (loan_date_due l) > 0
                then fmul (Fin (of_int (ordinal now - ordinal (loan_date_due l))))
                       (late_fee_per_day py_float s)
                else Fin 0)"
  shows "fst (return_book py_float now log_now (loan_id l) actor s) =
           Inr \<lparr>success = True, message = [Lit ''Returned. Late fee: '', Fix2V fee],
                 late_fee = Some fee\<rparr>"
    and "fetchone (\<lambda>x. loan_id x = loan_id l)
           (loans (snd (return_book py_float now log_now (loan_id l) actor s))) =
         Some (l\<lparr>loan_date_returned := Some now, loan_late_fee := sqlite_real fee\<rparr>)"
proof -
  have f: "(if ordinal now - ordinal (loan_date_due l) > 0
       then fmul (float_of_int (ordinal now - ordinal (loan_date_due l)))
              (late_fee_per_day py_float s)
       else Fin 0) = fee"
    using float_of_late_days(1) [where now = now and due = "loan_date_due l"]
    by (simp add: assms(4))
  note r = return_book_open [OF assms(1-3), of py_float now log_now actor, unfolded f]
  show "fst (return_book py_float now log_now (loan_id l) actor s) =
      Inr \<lparr>success = True, message = [Lit ''Returned. Late fee: '', Fix2V fee],
            late_fee = Some fee\<rparr>"
    by (simp add: r)
  have "fetchone (\<lambda>x. loan_id x = loan_id l)
      (update_where (\<lambda>x. loan_id x = loan_id l)
         (\<lambda>x. x\<lparr>loan_date_returned := Some now, loan_late_fee := sqlite_real fee\<rparr>) (loans s)) =
      Some (l\<lparr>loan_date_returned := Some now, loan_late_fee := sqlite_real fee\<rparr>)"
    using assms(1,2) by (rule fetchone_update_where_key) simp
  then show "fetchone (\<lambda>x. loan_id x = loan_id l)
      (loans (snd (return_book py_float now log_now (loan_id l) actor s))) =
      Some (l\<lparr>loan_date_returned := Some now, loan_late_fee := sqlite_real fee\<rparr>)"
    by (simp add: r log_audit_def Let_def)
qed

lemma fmul_examples:
  "fmul (Fin 1) (Fin 0.50) = Fin 0.50"
  "fmul (Fin 10) (Fin 0.75) = Fin 7.50"
  "fmul (Fin 3) (Fin (3602879701896397 / 36028797018963968)) =
     Fin (1351079888211149 / 4503599627370496)"
  "fmul (Fin 1) NaN = NaN"
  by (simp_all add: fmul_def round64_def flog2_def pow2_def round_half_even_def compute_bitlen
      Let_def)

text \<open>
  Claim C2, as stated, fails where the product is no binary64 number. With the setting
  \<open>0.1\<close>, read by \<open>float\<close> as \<open>3602879701896397 / 2 ^ 55\<close>, a return three
  days late yields the float \<open>1351079888211149 / 2 ^ 52\<close>, printed
  \<open>0.30000000000000004\<close>, which is not three times the rate. With the setting
  \<open>nan\<close> the fee is NaN and the row holds NULL.
\<close>

theorem return_book_fee_rounded:
  "get_setting ''late_fee_per_day'' (library\<lparr>settings := [(''late_fee_per_day'', ''0.1'')]\<rparr>) =
     Some ''0.1'' \<and>
   toy_float ''0.1'' = Some (Fin (3602879701896397 / 36028797018963968)) \<and>
   ordinal (at_day 738017) - ordinal (loan_date_due loan_dune) = 3 \<and>
   fst (return_book toy_float (at_day 738017) (at_day 738017) (loan_id loan_dune) None
         (library\<lparr>settings := [(''late_fee_per_day'', ''0.1'')]\<rparr>)) =
     Inr \<lparr>success = True,
           message = [Lit ''Returned. Late fee: '',
                      Fix2V (Fin (1351079888211149 / 4503599627370496))],
           late_fee = Some (Fin (1351079888211149 / 4503599627370496))\<rparr> \<and>
   (1351079888211149 / 4503599627370496 :: real) \<noteq>
     of_int (max 0 3) * (3602879701896397 / 36028797018963968) \<and>
   fst (return_book toy_float (at_day 738015) (at_day 738015) (loan_id loan_dune) None
         (library\<lparr>settings := [(''late_fee_per_day'', ''nan'')]\<rparr>)) =
     Inr \<lparr>success = True, message = [Lit ''Returned. Late fee: '', Fix2V NaN],
           late_fee = Some NaN\<rparr> \<and>
   fetchone (\<lambda>x. loan_id x = loan_id loan_dune)
       (loans (snd (return_book toy_float (at_day 738015) (at_day 738015) (loan_id loan_dune)
         None (library\<lparr>settings := [(''late_fee_per_day'', ''nan'')]\<rparr>)))) =
     Some (loan_dune\<lparr>loan_date_returned := Some (at_day 738015), loan_late_fee := None\<rparr>)"
proof -
  let ?a = "library\<lparr>settings := [(''late_fee_per_day'', ''0.1'')]\<rparr>"
  let ?b = "library\<lparr>settings := [(''late_fee_per_day'', ''nan'')]\<rparr>"
  have k: "distinct (map loan_id (loans ?a))" and k': "distinct (map loan_id (loans ?b))"
    by (simp_all add: library_def loan_dune_def loan_emma_def)
  have m: "loan_dune \<in> set (loans ?a)" and m': "loan_dune \<in> set (loans ?b)"
    by (simp_all add: library_def)
  have n: "loan_date_returned loan_dune = None"
    by (simp add: loan_dune_def)
  have g: "get_setting ''late_fee_per_day'' ?a = Some ''0.1''"
    by (simp add: get_setting_def fetchone_def)
  have f: "toy_float ''0.1'' = Some (Fin (3602879701896397 / 36028797018963968))"
    by (simp add: toy_float_def)
  have ra: "late_fee_per_day toy_float ?a = Fin (3602879701896397 / 36028797018963968)"
    by (simp add: late_fee_per_day_def g f)
  have rb: "late_fee_per_day toy_float ?b = NaN"
    by (simp add: late_fee_per_day_def get_setting_def fetchone_def toy_float_def)
  have d3: "ordinal (at_day 738017) - ordinal (loan_date_due loan_dune) = 3"
    and d1: "ordinal (at_day 738015) - ordinal (loan_date_due loan_dune) = 1"
    by (simp_all add: ordinal_at_day date_in_range_def loan_dune_def)
  have fa: "Fin (1351079888211149 / 4503599627370496) =
      (if ordinal (at_day 738017) - ordinal (loan_date_due loan_dune) > 0
       then fmul (Fin (of_int (ordinal (at_day 738017) - ordinal (loan_date_due loan_dune))))
              (late_fee_per_day toy_float ?a)
       else Fin 0)"
    by (simp add: d3 ra fmul_examples)
  have fb: "NaN =
      (if ordinal (at_day 738015) - ordinal (loan_date_due loan_dune) > 0
       then fmul (Fin (of_int (ordinal (at_day 738015) - ordinal (loan_date_due loan_dune))))
              (late_fee_per_day toy_float ?b)
       else Fin 0)"
    by (simp add: d1 rb fmul_examples)
  have ne: "(1351079888211149 / 4503599627370496 :: real) \<noteq>
      of_int (max 0 3) * (3602879701896397 / 36028797018963968)"
    by simp
  note a1 = return_book_open_fee(1) [OF k m n fa, of "at_day 738017" None]
  note b1 = return_book_open_fee(1) [OF k' m' n fb, of "at_day 738015" None]
  note b2 = return_book_open_fee(2) [OF k' m' n fb, of "at_day 738015" None]
  have b2': "fetchone (\<lambda>x. loan_id x = loan_id loan_dune)
       (loans (snd (return_book toy_float (at_day 738015) (at_day 738015) (loan_id loan_dune)
         None ?b))) =
     Some (loan_dune\<lparr>loan_date_returned := Some (at_day 738015), loan_late_fee := None\<rparr>)"
    using b2 by (simp add: sqlite_real_def)
  from g f d3 a1 ne b1 b2' show ?thesis by blast
qed

text \<open>
  Claim C2, amended. Returning an open loan while the setting \<open>late_fee_per_day\<close>
  holds a text that \<open>float\<close> reads as \<open>rate\<close>: the fee handed back is \<open>0.0\<close> when
  the return day is not after the due day, and otherwise the binary64 product, rounded
  to nearest, of the number of late days and the rate; the days are calendar days and
  the rate is the one in the settings of the state the call runs in. The loan row holds
  what SQLite keeps of that float (NULL for NaN). So a return on the due day yields 0, a
  return one day late at rate 0.50 yields 0.50, and a return ten days late at rate 0.75
  yields 7.50, handed back and stored.
\<close>

theorem return_book_late_fee:
  assumes "distinct (map loan_id (loans s))" and "l \<in> set (loans s)"
    and "loan_date_returned l = None"
    and "get_setting ''late_fee_per_day'' s = Some v" and "py_float v = Some rate"
  shows "(let fee = (if 0 < ordinal now - ordinal (loan_date_due l)
                     then fmul (Fin (of_int (ordinal now - ordinal (loan_date_due l)))) rate
                     else Fin 0)
          in fst (return_book py_float now log_now (loan_id l) actor s) =
               Inr \<lparr>success = True, message = [Lit ''Returned. Late fee: '', Fix2V fee],
                     late_fee = Some fee\<rparr> \<and>
             fetchone (\<lambda>x. loan_id x = loan_id l)
                 (loans (snd (return_book py_float now log_now (loan_id l) actor s))) =
               Some (l\<lparr>loan_date_returned := Some now, loan_late_fee := sqlite_real fee\<rparr>) \<and>
             (ordinal now = ordinal (loan_date_due l) \<longrightarrow>
                fee = Fin 0 \<and> sqlite_real fee = Some (Fin 0)) \<and>
             (ordinal now = ordinal (loan_date_due l) + 1 \<and> rate = Fin 0.50 \<longrightarrow>
                fee = Fin 0.50 \<and> sqlite_real fee = Some (Fin 0.50)) \<and>
             (ordinal now = ordinal (loan_date_due l) + 10 \<and> rate = Fin 0.75 \<longrightarrow>
                fee = Fin 7.50 \<and> sqlite_real fee = Some (Fin 7.50)))"
proof -
  define fee where "fee = (if 0 < ordinal now - ordinal (loan_date_due l)
      then fmul (Fin (of_int (ordinal now - ordinal (loan_date_due l)))) rate else Fin 0)"
  have r: "late_fee_per_day py_float s = rate"
    using assms(4,5) by (simp add: late_fee_per_day_def)
  have f: "fee = (if ordinal now - ordinal (loan_date_due l) > 0
      then fmul (Fin (of_int (ordinal now - ordinal (loan_date_due l))))
             (late_fee_per_day py_float s)
      else Fin 0)"
    by (simp add: fee_def r)
  note a = return_book_open_fee(1) [OF assms(1-3) f, of log_now actor]
  note b = return_book_open_fee(2) [OF assms(1-3) f, of log_now actor]
  have e0: "fee = Fin 0 \<and> sqlite_real fee = Some (Fin 0)"
    if "ordinal now = ordinal (loan_date_due l)"
    using that by (simp add: fee_def sqlite_real_def)
  have e1: "fee = Fin 0.50 \<and> sqlite_real fee = Some (Fin 0.50)"
    if "ordinal now = ordinal (loan_date_due l) + 1 \<and> rate = Fin 0.50"
    using that fmul_examples(1) by (simp add: fee_def sqlite_real_def)
  have e10: "fee = Fin 7.50 \<and> sqlite_real fee = Some (Fin 7.50)"
    if "ordinal now = ordinal (loan_date_due l) + 10 \<and> rate = Fin 0.75"
    using that fmul_examples(2) by (simp add: fee_def sqlite_real_def)
  from a b e0 e1 e10 show ?thesis
    unfolding Let_def fee_def [symmetric] by blast
qed

theorem return_book_late_fee_witness:
  "distinct (map loan_id (loans library)) \<and> loan_dune \<in> set (loans library) \<and>
   loan_date_returned loan_dune = None \<and>
   get_setting ''late_fee_per_day'' library = Some ''0.50'' \<and>
   toy_float ''0.50'' = Some (Fin 0.50) \<and>
   ordinal (at_day 738014) = ordinal (loan_date_due loan_dune) \<and>
   fst (return_book toy_float (at_day 738014) (at_day 738014) (loan_id loan_dune) None library) =
     Inr \<lparr>success = True, message = [Lit ''Returned. Late fee: '', Fix2V (Fin 0)],
           late_fee = Some (Fin 0)\<rparr> \<and>
   ordinal (at_day 738015) = ordinal (loan_date_due loan_dune) + 1 \<and>
   fst (return_book toy_float (at_day 738015) (at_day 738015) (loan_id loan_dune) None library) =
     Inr \<lparr>success = True, message = [Lit ''Returned. Late fee: '', Fix2V (Fin 0.50)],
           late_fee = Some (Fin 0.50)\<rparr> \<and>
   get_setting ''late_fee_per_day''
     (set_setting (at_day 738010) ''late_fee_per_day'' ''0.75'' None library) = Some ''0.75'' \<and>
   toy_float ''0.75'' = Some (Fin 0.75) \<and>
   ordinal (at_day 738024) = ordinal (loan_date_due loan_dune) + 10 \<and>
   fst (return_book toy_float (at_day 738024) (at_day 738024) (loan_id loan_dune) None
      (set_setting (at_day 738010) ''late_fee_per_day'' ''0.75'' None library)) =
     Inr \<lparr>success = True, message = [Lit ''Returned. Late fee: '', Fix2V (Fin 7.50)],
           late_fee = Some (Fin 7.50)\<rparr>"
proof -
  let ?s = "set_setting (at_day 738010) ''late_fee_per_day'' ''0.75'' None library"
  have k: "distinct (map loan_id (loans library))"
    by (simp add: library_def loan_dune_def loan_emma_def)
  have m: "loan_dune \<in> set (loans library)"
    by (simp add: library_def)
  have l: "loans ?s = loans library"
    by (simp add: set_setting_def log_audit_def Let_def)
  have k': "distinct (map loan_id (loans ?s))" and m': "loan_dune \<in> set (loans ?s)"
    using k m l by simp_all
  have n: "loan_date_returned loan_dune = None"
    by (simp add: loan_dune_def)
  have g: "get_setting ''late_fee_per_day'' library = Some ''0.50''"
    by (simp add: get_setting_def fetchone_def library_def)
  have g': "get_setting ''late_fee_per_day'' ?s = Some ''0.75''"
    by (simp add: get_setting_def fetchone_def library_def set_setting_def log_audit_def
        delete_where_def Let_def)
  have f: "toy_float ''0.50'' = Some (Fin 0.50)" and f': "toy_float ''0.75'' = Some (Fin 0.75)"
    by (simp_all add: toy_float_def)
  have d0: "ordinal (at_day 738014) = ordinal (loan_date_due loan_dune)"
    and d1: "ordinal (at_day 738015) = ordinal (loan_date_due loan_dune) + 1"
    and d10: "ordinal (at_day 738024) = ordinal (loan_date_due loan_dune) + 10"
    by (simp_all add: ordinal_at_day date_in_range_def loan_dune_def)
  note t0 = return_book_late_fee [where py_float = toy_float, OF k m n g f,
      where now = "at_day 738014" and log_now = "at_day 738014" and actor = None,
      unfolded Let_def]
  note t1 = return_book_late_fee [where py_float = toy_float, OF k m n g f,
      where now = "at_day 738015" and log_now = "at_day 738015" and actor = None,
      unfolded Let_def]
  note t10 = return_book_late_fee [where py_float = toy_float, OF k' m' n g' f',
      where now = "at_day 738024" and log_now = "at_day 738024" and actor = None,
      unfolded Let_def]
  note e0 = t0 [THEN conjunct2, THEN conjunct2, THEN conjunct1, THEN mp, OF d0, THEN conjunct1]
  note e1 = t1 [THEN conjunct2, THEN conjunct2, THEN conjunct2, THEN conjunct1, THEN mp,
      OF conjI [OF d1 refl], THEN conjunct1]
  note e10 = t10 [THEN conjunct2, THEN conjunct2, THEN conjunct2, THEN conjunct2, THEN mp,
      OF conjI [OF d10 refl], THEN conjunct1]
  have "fst (return_book toy_float (at_day 738014) (at_day 738014) (loan_id loan_dune) None
      library) =
     Inr \<lparr>success = True, message = [Lit ''Returned. Late fee: '', Fix2V (Fin 0)],
           late_fee = Some (Fin 0)\<rparr>"
    using t0 [THEN conjunct1] unfolding e0 .
  moreover
  have "fst (return_book toy_float (at_day 738015) (at_day 738015) (loan_id loan_dune) None
      library) =
     Inr \<lparr>success = True, message = [Lit ''Returned. Late fee: '', Fix2V (Fin 0.50)],
           late_fee = Some (Fin 0.50)\<rparr>"
    using t1 [THEN conjunct1] unfolding e1 .
  moreover
  have "fst (return_book toy_float (at_day 738024) (at_day 738024) (loan_id loan_dune) None
      ?s) =
     Inr \<lparr>success = True, message = [Lit ''Returned. Late fee: '', Fix2V (Fin 7.50)],
           late_fee = Some (Fin 7.50)\<rparr>"
    using t10 [THEN conjunct1] unfolding e10 .
  ultimately show ?thesis
    using k m n g g' f f' d0 d1 d10 by blast
qed

text \<open>
  Claim C10. Returning an open loan while the setting \<open>late_fee_per_day\<close> is absent, or
  holds a text that \<open>float\<close> rejects, raises nothing: the call succeeds and the fee
  handed back and stored is computed at the fallback rate 0.50 per day.
\<close>

theorem return_book_fallback_rate:
  assumes "distinct (map loan_id (loans s))" and "l \<in> set (loans s)"
    and "loan_date_returned l = None"
    and "case get_setting ''late_fee_per_day'' s of None \<Rightarrow> True | Some v \<Rightarrow> py_float v = None"
  shows "fst (return_book py_float now log_now (loan_id l) actor s) =
           Inr \<lparr>success = True,
             message = [Lit ''Returned. Late fee: '',
               Fix2V (Fin (if ordinal now - ordinal (loan_date_due l) > 0
                      then of_int (ordinal now - ordinal (loan_date_due l)) * 0.50 else 0))],
             late_fee = Some (Fin (if ordinal now - ordinal (loan_date_due l) > 0
                      then of_int (ordinal now - ordinal (loan_date_due l)) * 0.50 else 0))\<rparr> \<and>
         fetchone (\<lambda>x. loan_id x = loan_id l)
             (loans (snd (return_book py_float now log_now (loan_id l) actor s))) =
           Some (l\<lparr>loan_date_returned := Some now,
                   loan_late_fee :=
                     Some (Fin (if ordinal now - ordinal (loan_date_due l) > 0
                      then of_int (ordinal now - ordinal (loan_date_due l)) * 0.50 else 0))\<rparr>)"
proof -
  define x :: real where "x = (if ordinal now - ordinal (loan_date_due l) > 0
      then of_int (ordinal now - ordinal (loan_date_due l)) * 0.50 else 0)"
  have r: "late_fee_per_day py_float s = Fin 0.50"
    using assms(4) by (simp add: late_fee_per_day_def split: option.splits)
  have h: "fmul (Fin (of_int (ordinal now - ordinal (loan_date_due l)))) (Fin 0.50) =
      Fin (of_int (ordinal now - ordinal (loan_date_due l)) * 0.50)"
    if "0 < ordinal now - ordinal (loan_date_due l)"
    using that float_of_late_days(2) [OF that] by (rule fmul_half_exact)
  have f: "Fin x = (if ordinal now - ordinal (loan_date_due l) > 0
      then fmul (Fin (of_int (ordinal now - ordinal (loan_date_due l))))
             (late_fee_per_day py_float s)
      else Fin 0)"
    using h by (simp add: x_def r)
  have q: "sqlite_real (Fin x) = Some (Fin x)"
    by (simp add: sqlite_real_def)
  note a = return_book_open_fee(1) [OF assms(1-3) f, of log_now actor]
  note b = return_book_open_fee(2) [OF assms(1-3) f, of log_now actor, unfolded q]
  from a b show ?thesis
    unfolding x_def by blast
qed

theorem return_book_fallback_rate_witness:
  "distinct (map loan_id (loans (library\<lparr>settings := []\<rparr>))) \<and>
   loan_dune \<in> set (loans (library\<lparr>settings := []\<rparr>)) \<and>
   loan_date_returned loan_dune = None \<and>
   get_setting ''late_fee_per_day'' (library\<lparr>settings := []\<rparr>) = None \<and>
   fst (return_book toy_float (at_day 738017) (at_day 738017) (loan_id loan_dune)
      None (library\<lparr>settings := []\<rparr>)) =
     Inr \<lparr>success = True, message = [Lit ''Returned. Late fee: '', Fix2V (Fin 1.50)],
           late_fee = Some (Fin 1.50)\<rparr> \<and>
   get_setting ''late_fee_per_day'' (library\<lparr>settings := [(''late_fee_per_day'', ''free'')]\<rparr>) =
     Some ''free'' \<and>
   toy_float ''free'' = None \<and>
   fst (return_book toy_float (at_day 738017) (at_day 738017) (loan_id loan_dune)
      None (library\<lparr>settings := [(''late_fee_per_day'', ''free'')]\<rparr>)) =
     Inr \<lparr>success = True, message = [Lit ''Returned. Late fee: '', Fix2V (Fin 1.50)],
           late_fee = Some (Fin 1.50)\<rparr>"
proof -
  let ?a = "library\<lparr>settings := []\<rparr>"
  let ?b = "library\<lparr>settings := [(''late_fee_per_day'', ''free'')]\<rparr>"
  have k: "distinct (map loan_id (loans ?a))" and k': "distinct (map loan_id (loans ?b))"
    by (simp_all add: library_def loan_dune_def loan_emma_def)
  have m: "loan_dune \<in> set (loans ?a)" and m': "loan_dune \<in> set (loans ?b)"
    by (simp_all add: library_def)
  have n: "loan_date_returned loan_dune = None"
    by (simp add: loan_dune_def)
  have g: "get_setting ''late_fee_per_day'' ?a = None"
    by (simp add: get_setting_def fetchone_def)
  have g': "get_setting ''late_fee_per_day'' ?b = Some ''free''"
    by (simp add: get_setting_def fetchone_def)
  have f: "toy_float ''free'' = None"
    by (simp add: toy_float_def)
  have h: "case get_setting ''late_fee_per_day'' ?a of None \<Rightarrow> True
      | Some v \<Rightarrow> toy_float v = None"
    by (simp add: g)
  have h': "case get_setting ''late_fee_per_day'' ?b of None \<Rightarrow> True
      | Some v \<Rightarrow> toy_float v = None"
    by (simp add: g' f)
  have d: "ordinal (at_day 738017) - ordinal (loan_date_due loan_dune) = 3"
    by (simp add: ordinal_at_day date_in_range_def loan_dune_def)
  note ta = return_book_fallback_rate [where py_float = toy_float, OF k m n h,
      where now = "at_day 738017" and log_now = "at_day 738017" and actor = None]
  note tb = return_book_fallback_rate [where py_float = toy_float, OF k' m' n h',
      where now = "at_day 738017" and log_now = "at_day 738017" and actor = None]
  have "fst (return_book toy_float (at_day 738017) (at_day 738017) (loan_id loan_dune)
      None ?a) =
     Inr \<lparr>success = True, message = [Lit ''Returned. Late fee: '', Fix2V (Fin 1.50)],
           late_fee = Some (Fin 1.50)\<rparr>"
    using ta by (simp add: d)
  moreover
  have "fst (return_book toy_float (at_day 738017) (at_day 738017) (loan_id loan_dune)
      None ?b) =
     Inr \<lparr>success = True, message = [Lit ''Returned. Late fee: '', Fix2V (Fin 1.50)],
           late_fee = Some (Fin 1.50)\<rparr>"
    using tb by (simp add: d)
  ultimately show ?thesis
    using k m n g g' f by blast
qed

section \<open>The availability invariant\<close>

lemma next_rowid_fresh: "x \<in> set ids \<Longrightarrow> x < next_rowid seq ids"
proof -
  assume "x \<in> set ids"
  have "fold max ids seq = Max (set (seq # ids))"
    by (rule Max.set_eq_fold [symmetric])
  moreover have "x \<le> Max (set (seq # ids))"
    using \<open>x \<in> set ids\<close> by (intro Max_ge) auto
  ultimately show ?thesis
    by (simp add: next_rowid_def)
qed

lemma map_key_update_where:
  "(\<And>x. k (f x) = k x) \<Longrightarrow> map k (update_where p f rows) = map k rows"
  unfolding update_where_def by (induction rows) auto

lemma log_audit_tables [simp]:
  "books (log_audit now actor action details s) = books s"
  "loans (log_audit now actor action details s) = loans s"
  "users (log_audit now actor action details s) = users s"
  by (simp_all add: log_audit_def Let_def)

lemma availability_inv_iff:
  "availability_inv s \<longleftrightarrow>
     (\<forall>b\<in>set (books s). (book_available b = 0) =
        (\<exists>l\<in>set (loans s). loan_book_id l = book_id b \<and> open_loan l)) \<and>
     distinct (map loan_book_id (filter open_loan (loans s)))"
  by (auto simp: availability_inv_def list_all_iff open_loans_of_def filter_empty_conv)

lemma borrow_book_state:
  "snd (borrow_book now log_now bid mid days_due actor s) = s \<or>
   (\<exists>b\<in>set (books s). book_id b = bid \<and> book_available b \<noteq> 0 \<and>
      books (snd (borrow_book now log_now bid mid days_due actor s)) =
        update_where (\<lambda>r. book_id r = bid) (\<lambda>r. r\<lparr>book_available := 0\<rparr>) (books s) \<and>
      loans (snd (borrow_book now log_now bid mid days_due actor s)) =
        loans s @
          [\<lparr>loan_id = next_rowid (seq_loans s) (map loan_id (loans s)), loan_book_id = bid,
            loan_member_id = mid, loan_date_borrowed = now,
            loan_date_due = plus_days now days_due,
            loan_date_returned = None, loan_late_fee = Some (Fin 0)\<rparr>] \<and>
      users (snd (borrow_book now log_now bid mid days_due actor s)) = users s)"
proof (cases "fetchone (\<lambda>b. book_id b = bid) (books s)")
  case None
  then show ?thesis by (simp add: borrow_book_def)
next
  case (Some b)
  then have "b \<in> set (books s) \<and> book_id b = bid"
    by (rule fetchone_SomeD)
  with Some show ?thesis
    by (auto simp: borrow_book_def Let_def)
qed

lemma return_book_state:
  "snd (return_book py_float now log_now lid actor s) = s \<or>
   (\<exists>l\<in>set (loans s). \<exists>fee. loan_id l = lid \<and> open_loan l \<and>
      books (snd (return_book py_float now log_now lid actor s)) =
        update_where (\<lambda>b. book_id b = loan_book_id l) (\<lambda>b. b\<lparr>book_available := 1\<rparr>) (books s) \<and>
      loans (snd (return_book py_float now log_now lid actor s)) =
        update_where (\<lambda>x. loan_id x = lid)
          (\<lambda>x. x\<lparr>loan_date_returned := Some now, loan_late_fee := fee\<rparr>) (loans s) \<and>
      users (snd (return_book py_float now log_now lid actor s)) = users s)"
proof (cases "fetchone (\<lambda>l. loan_id l = lid) (loans s)")
  case None
  then show ?thesis by (simp add: return_book_def)
next
  case (Some l)
  then have m: "l \<in> set (loans s) \<and> loan_id l = lid"
    by (rule fetchone_SomeD)
  show ?thesis
  proof (cases "loan_date_returned l")
    case None
    with Some m show ?thesis
      by (auto simp: return_book_def Let_def open_loan_def)
  next
    case (Some t)
    with \<open>fetchone (\<lambda>l. loan_id l = lid) (loans s) = Some l\<close> show ?thesis
      by (simp add: return_book_def)
  qed
qed

lemma keys_after_borrow:
  assumes "db_keys s"
    and "books s' = update_where (\<lambda>r. book_id r = bid) (\<lambda>r. r\<lparr>book_available := 0\<rparr>) (books s)"
    and "loans s' = loans s @ [n]"
    and "loan_id n = next_rowid (seq_loans s) (map loan_id (loans s))"
    and "users s' = users s"
  shows "db_keys s'"
proof -
  have "map book_id (books s') = map book_id (books s)"
    unfolding assms(2) by (rule map_key_update_where) simp
  moreover have "loan_id n \<notin> set (map loan_id (loans s))"
    using next_rowid_fresh [of "loan_id n" "map loan_id (loans s)" "seq_loans s"] assms(4)
    by auto
  ultimately show ?thesis
    using assms(1,3,5) by (simp add: db_keys_def)
qed

lemma inv_after_borrow:
  assumes "availability_inv s" and "b \<in> set (books s)" and "book_available b \<noteq> 0"
    and bs: "books s' =
      update_where (\<lambda>r. book_id r = book_id b) (\<lambda>r. r\<lparr>book_available := 0\<rparr>) (books s)"
    and ls: "loans s' = loans s @ [n]"
    and nb: "loan_book_id n = book_id b" and no: "open_loan n"
  shows "availability_inv s'"
proof -
  from assms(1) have i1: "\<forall>b\<in>set (books s). (book_available b = 0) =
        (\<exists>l\<in>set (loans s). loan_book_id l = book_id b \<and> open_loan l)"
    and i2: "distinct (map loan_book_id (filter open_loan (loans s)))"
    by (simp_all add: availability_inv_iff)
  from i1 assms(2,3)
  have free: "\<not> (\<exists>l\<in>set (loans s). loan_book_id l = book_id b \<and> open_loan l)"
    by blast
  have opens: "(\<exists>l\<in>set (loans s'). loan_book_id l = k \<and> open_loan l) =
      (k = book_id b \<or> (\<exists>l\<in>set (loans s). loan_book_id l = k \<and> open_loan l))" for k
    unfolding ls using nb no by auto
  have "book_id b \<notin> loan_book_id ` set (filter open_loan (loans s))"
    using free by auto
  then have "distinct (map loan_book_id (filter open_loan (loans s')))"
    unfolding ls using i2 by (simp add: nb no)
  moreover have "(book_available c = 0) =
      (\<exists>l\<in>set (loans s'). loan_book_id l = book_id c \<and> open_loan l)"
    if "c \<in> set (books s')" for c
  proof -
    from that obtain a where a: "a \<in> set (books s)"
      and c: "c = (if book_id a = book_id b then a\<lparr>book_available := 0\<rparr> else a)"
      unfolding bs update_where_def by auto
    show ?thesis
    proof (cases "book_id a = book_id b")
      case True
      with c have "book_available c = 0" and "book_id c = book_id b" by simp_all
      then show ?thesis unfolding opens by simp
    next
      case False
      with c have "c = a" by simp
      with False i1 a show ?thesis unfolding opens by simp
    qed
  qed
  ultimately show ?thesis
    by (simp add: availability_inv_iff)
qed

lemma open_after_return:
  "filter open_loan
     (update_where (\<lambda>x. loan_id x = lid)
        (\<lambda>x. x\<lparr>loan_date_returned := Some now, loan_late_fee := fee\<rparr>) rows) =
   filter (\<lambda>x. loan_id x \<noteq> lid) (filter open_loan rows)"
  unfolding update_where_def by (induction rows) (auto simp: open_loan_def)

lemma keys_after_return:
  assumes "db_keys s"
    and "books s' = update_where (\<lambda>b. book_id b = bk) (\<lambda>b. b\<lparr>book_available := 1\<rparr>) (books s)"
    and "loans s' = update_where (\<lambda>x. loan_id x = lid)
          (\<lambda>x. x\<lparr>loan_date_returned := Some now, loan_late_fee := fee\<rparr>) (loans s)"
    and "users s' = users s"
  shows "db_keys s'"
proof -
  have "map book_id (books s') = map book_id (books s)"
    unfolding assms(2) by (rule map_key_update_where) simp
  moreover have "map loan_id (loans s') = map loan_id (loans s)"
    unfolding assms(3) by (rule map_key_update_where) simp
  ultimately show ?thesis
    using assms(1,4) by (simp add: db_keys_def)
qed

lemma inv_after_return:
  assumes "availability_inv s" and d: "distinct (map loan_id (loans s))"
    and lm: "l \<in> set (loans s)" and lo: "open_loan l"
    and bs: "books s' = update_where (\<lambda>b. book_id b = loan_book_id l)
          (\<lambda>b. b\<lparr>book_available := 1\<rparr>) (books s)"
    and ls: "loans s' = update_where (\<lambda>x. loan_id x = loan_id l)
          (\<lambda>x. x\<lparr>loan_date_returned := Some now, loan_late_fee := fee\<rparr>) (loans s)"
  shows "availability_inv s'"
proof -
  from assms(1) have i1: "\<forall>b\<in>set (books s). (book_available b = 0) =
        (\<exists>l\<in>set (loans s). loan_book_id l = book_id b \<and> open_loan l)"
    and i2: "distinct (map loan_book_id (filter open_loan (loans s)))"
    by (simp_all add: availability_inv_iff)
  have op: "filter open_loan (loans s') =
      filter (\<lambda>x. loan_id x \<noteq> loan_id l) (filter open_loan (loans s))"
    unfolding ls by (rule open_after_return)
  have inj_id: "inj_on loan_id (set (loans s))"
    using d by (simp add: distinct_map)
  have inj_bk: "inj_on loan_book_id (set (filter open_loan (loans s)))"
    using i2 by (simp add: distinct_map)
  have same_id: "x = l" if "x \<in> set (loans s)" and "loan_id x = loan_id l" for x
    using inj_id that(2) that(1) lm by (rule inj_onD)
  have same_book: "x = l"
    if "x \<in> set (loans s)" and "open_loan x" and "loan_book_id x = loan_book_id l" for x
  proof -
    have "x \<in> set (filter open_loan (loans s))" and "l \<in> set (filter open_loan (loans s))"
      using that(1,2) lm lo by simp_all
    with inj_bk that(3) show ?thesis by (rule inj_onD)
  qed
  have opens: "(\<exists>x\<in>set (loans s'). loan_book_id x = k \<and> open_loan x) =
      (\<exists>x\<in>set (loans s). loan_book_id x = k \<and> open_loan x \<and> loan_id x \<noteq> loan_id l)" for k
  proof -
    have "(\<exists>x\<in>set (loans s'). loan_book_id x = k \<and> open_loan x) =
        (\<exists>x\<in>set (filter open_loan (loans s')). loan_book_id x = k)"
      by (simp add: Bex_def conj_ac)
    also have "\<dots> = (\<exists>x\<in>set (loans s). loan_book_id x = k \<and> open_loan x \<and>
        loan_id x \<noteq> loan_id l)"
      unfolding op by (simp add: Bex_def conj_ac)
    finally show ?thesis .
  qed
  have p2: "distinct (map loan_book_id (filter open_loan (loans s')))"
    unfolding op using i2 by (rule distinct_map_filter)
  have p1: "(book_available c = 0) =
      (\<exists>x\<in>set (loans s'). loan_book_id x = book_id c \<and> open_loan x)"
    if "c \<in> set (books s')" for c
  proof -
    from that obtain a where a: "a \<in> set (books s)"
      and c: "c = (if book_id a = loan_book_id l then a\<lparr>book_available := 1\<rparr> else a)"
      unfolding bs update_where_def by auto
    show ?thesis
    proof (cases "book_id a = loan_book_id l")
      case True
      have av: "book_available c \<noteq> 0" and id: "book_id c = loan_book_id l"
        using c True by simp_all
      have "\<not> (\<exists>x\<in>set (loans s). loan_book_id x = loan_book_id l \<and> open_loan x \<and>
          loan_id x \<noteq> loan_id l)"
      proof
        assume "\<exists>x\<in>set (loans s). loan_book_id x = loan_book_id l \<and> open_loan x \<and>
          loan_id x \<noteq> loan_id l"
        then obtain x where x: "x \<in> set (loans s)" "loan_book_id x = loan_book_id l"
          "open_loan x" "loan_id x \<noteq> loan_id l"
          by blast
        from x(1,3,2) have "x = l" by (rule same_book)
        with x(4) show False by simp
      qed
      with av show ?thesis
        unfolding opens id by simp
    next
      case False
      then have ca: "c = a" using c by simp
      have other: "loan_id x \<noteq> loan_id l"
        if "x \<in> set (loans s)" and "loan_book_id x = book_id a" for x
      proof
        assume "loan_id x = loan_id l"
        with that(1) have "x = l" by (rule same_id)
        with that(2) False show False by simp
      qed
      have "(\<exists>x\<in>set (loans s). loan_book_id x = book_id a \<and> open_loan x \<and>
          loan_id x \<noteq> loan_id l) =
          (\<exists>x\<in>set (loans s). loan_book_id x = book_id a \<and> open_loan x)"
        using other by (intro bex_cong refl) (simp cong: conj_cong)
      moreover from i1 a have "(book_available a = 0) =
          (\<exists>x\<in>set (loans s). loan_book_id x = book_id a \<and> open_loan x)"
        by (rule bspec)
      ultimately show ?thesis
        unfolding opens ca by (rule ssubst)
    qed
  qed
  show ?thesis
    unfolding availability_inv_iff
  proof (intro conjI ballI)
    fix c
    assume "c \<in> set (books s')"
    then show "(book_available c = 0) =
        (\<exists>x\<in>set (loans s'). loan_book_id x = book_id c \<and> open_loan x)"
      by (rule p1)
  next
    show "distinct (map loan_book_id (filter open_loan (loans s')))"
      by (rule p2)
  qed
qed

lemma exec_op_preserves:
  assumes "db_keys s" and "availability_inv s"
  shows "db_keys (exec_op py_float x s) \<and> availability_inv (exec_op py_float x s)"
proof (cases x)
  case (Borrow now log_now bid mid days_due actor)
  let ?s' = "snd (borrow_book now log_now bid mid days_due actor s)"
  from borrow_book_state [of now log_now bid mid days_due actor s]
  have "db_keys ?s' \<and> availability_inv ?s'"
  proof (elim disjE bexE conjE)
    assume "?s' = s"
    with assms show ?thesis by simp
  next
    fix b
    assume b: "b \<in> set (books s)" "book_id b = bid" "book_available b \<noteq> 0"
      and bs: "books ?s' =
        update_where (\<lambda>r. book_id r = bid) (\<lambda>r. r\<lparr>book_available := 0\<rparr>) (books s)"
      and ls: "loans ?s' = loans s @
          [\<lparr>loan_id = next_rowid (seq_loans s) (map loan_id (loans s)), loan_book_id = bid,
            loan_member_id = mid, loan_date_borrowed = now,
            loan_date_due = plus_days now days_due,
            loan_date_returned = None, loan_late_fee = Some (Fin 0)\<rparr>]"
      and us: "users ?s' = users s"
    have bs': "books ?s' =
        update_where (\<lambda>r. book_id r = book_id b) (\<lambda>r. r\<lparr>book_available := 0\<rparr>) (books s)"
      using bs b(2) by simp
    have "db_keys ?s'"
      using assms(1) bs ls _ us by (rule keys_after_borrow) simp
    moreover have "availability_inv ?s'"
      using assms(2) b(1,3) bs' ls
      by (rule inv_after_borrow) (simp_all add: open_loan_def b(2))
    ultimately show ?thesis ..
  qed
  with Borrow show ?thesis by simp
next
  case (Return now log_now lid actor)
  let ?s' = "snd (return_book py_float now log_now lid actor s)"
  from return_book_state [of py_float now log_now lid actor s]
  have "db_keys ?s' \<and> availability_inv ?s'"
  proof (elim disjE bexE exE conjE)
    assume "?s' = s"
    with assms show ?thesis by simp
  next
    fix l fee
    assume l: "l \<in> set (loans s)" "loan_id l = lid" "open_loan l"
      and bs: "books ?s' = update_where (\<lambda>b. book_id b = loan_book_id l)
          (\<lambda>b. b\<lparr>book_available := 1\<rparr>) (books s)"
      and ls: "loans ?s' = update_where (\<lambda>x. loan_id x = lid)
          (\<lambda>x. x\<lparr>loan_date_returned := Some now, loan_late_fee := fee\<rparr>) (loans s)"
      and us: "users ?s' = users s"
    have d: "distinct (map loan_id (loans s))"
      using assms(1) by (simp add: db_keys_def)
    have ls': "loans ?s' = update_where (\<lambda>x. loan_id x = loan_id l)
          (\<lambda>x. x\<lparr>loan_date_returned := Some now, loan_late_fee := fee\<rparr>) (loans s)"
      using ls l(2) by simp
    have "db_keys ?s'"
      using assms(1) bs ls us by (rule keys_after_return)
    moreover have "availability_inv ?s'"
      using assms(2) d l(1,3) bs ls' by (rule inv_after_return)
    ultimately show ?thesis ..
  qed
  with Return show ?thesis by simp
qed

lemma exec_ops_preserves:
  "db_keys s \<Longrightarrow> availability_inv s \<Longrightarrow>
   db_keys (exec_ops py_float ops s) \<and> availability_inv (exec_ops py_float ops s)"
  unfolding exec_ops_def
proof (induction ops arbitrary: s)
  case Nil
  then show ?case by simp
next
  case (Cons x ops)
  from exec_op_preserves [OF Cons.prems, of py_float x]
  have "db_keys (exec_op py_float x s)" and "availability_inv (exec_op py_float x s)"
    by simp_all
  then show ?case
    using Cons.IH by simp
qed

text \<open>
  Claim C1. From a state that satisfies the schema's key constraints and the availability
  invariant (a book's \<open>available\<close> flag is 0 exactly when a loan with null
  \<open>date_returned\<close> references it, and no two such loans reference the same book), every
  sequence of \<open>borrow_book\<close> and \<open>return_book\<close> calls, with any arguments and whatever
  each call returns or raises, ends in a state that satisfies the invariant.
\<close>

theorem availability_inv_exec_ops:
  assumes "db_keys s" and "availability_inv s"
  shows "availability_inv (exec_ops py_float ops s)"
  using exec_ops_preserves [OF assms] by simp

theorem availability_inv_exec_ops_witness:
  "db_keys library \<and> availability_inv library \<and>
   availability_inv
     (exec_ops toy_float
        [Return (at_day 738016) (at_day 738016) 1 (Some ''admin''),
         Borrow (at_day 738017) (at_day 738017) 1 1 14 (Some ''admin''),
         Borrow (at_day 738018) (at_day 738018) 1 1 14 None,
         Borrow (at_day 738018) (at_day 738018) 2 1 7 None,
         Return (at_day 738019) (at_day 738019) 2 None] library)"
proof -
  have k: "db_keys library"
    by (simp add: db_keys_def library_def dune_def emma_def loan_dune_def loan_emma_def)
  have i: "availability_inv library"
    by (simp add: availability_inv_def open_loans_of_def open_loan_def library_def dune_def
        emma_def loan_dune_def loan_emma_def)
  show ?thesis
    using k i
      availability_inv_exec_ops [OF k i, of toy_float
        "[Return (at_day 738016) (at_day 738016) 1 (Some ''admin''),
          Borrow (at_day 738017) (at_day 738017) 1 1 14 (Some ''admin''),
          Borrow (at_day 738018) (at_day 738018) 1 1 14 None,
          Borrow (at_day 738018) (at_day 738018) 2 1 7 None,
          Return (at_day 738019) (at_day 738019) 2 None]"]
    by simp
qed


section \<open>Audit rows written by the operations\<close>

lemma log_audit_appended:
  "audit_log s0 = audit_log s \<Longrightarrow> audit_appended s (log_audit now a action details s0) a"
  by (simp add: audit_appended_def log_audit_def Let_def)

lemma audit_appended_caller:
  assumes "audit_appended s s' (actor_or_unknown actor)"
  shows "audit_one_row s s' \<and>
    (actor = Some caller \<and> caller \<noteq> [] \<longrightarrow> audit_actor (last (audit_log s')) = caller)"
  using assms by (auto simp: audit_appended_def audit_one_row_def actor_or_unknown_def)

lemma borrow_book_audit:
  "if succeeded (fst (borrow_book now log_now bid mid days_due actor s))
   then audit_appended s (snd (borrow_book now log_now bid mid days_due actor s))
          (actor_or_unknown actor)
   else audit_log (snd (borrow_book now log_now bid mid days_due actor s)) = audit_log s"
proof (cases "fetchone (\<lambda>b. book_id b = bid) (books s)")
  case None
  then show ?thesis by (simp add: borrow_book_def succeeded_def)
next
  case (Some b)
  then show ?thesis
    by (simp add: borrow_book_def succeeded_def Let_def log_audit_appended)
qed

lemma return_book_audit:
  "if succeeded (fst (return_book py_float now log_now lid actor s))
   then audit_appended s (snd (return_book py_float now log_now lid actor s))
          (actor_or_unknown actor)
   else audit_log (snd (return_book py_float now log_now lid actor s)) = audit_log s"
proof (cases "fetchone (\<lambda>l. loan_id l = lid) (loans s)")
  case None
  then show ?thesis by (simp add: return_book_def succeeded_def)
next
  case (Some l)
  then show ?thesis
    by (simp add: return_book_def succeeded_def Let_def log_audit_appended)
qed

lemma change_user_password_audit:
  "if succeeded (fst (change_user_password checkpw hashpw salt log_now username
         old_password_plain new_password_plain s))
   then audit_appended s (snd (change_user_password checkpw hashpw salt log_now username
         old_password_plain new_password_plain s)) username
   else audit_log (snd (change_user_password checkpw hashpw salt log_now username
         old_password_plain new_password_plain s)) = audit_log s"
  by (simp add: change_user_password_def succeeded_def Let_def log_audit_appended
      split: option.splits)

lemma admin_reset_password_audit:
  "if succeeded (fst (admin_reset_password hashpw salt log_now admin_username target_username
         new_password_plain s))
   then audit_appended s (snd (admin_reset_password hashpw salt log_now admin_username
         target_username new_password_plain s)) admin_username
   else audit_log (snd (admin_reset_password hashpw salt log_now admin_username
         target_username new_password_plain s)) = audit_log s"
  by (simp add: admin_reset_password_def succeeded_def Let_def log_audit_appended
      split: option.splits)

lemma create_user_audit:
  "if fst (create_user hashpw salt log_now created password_plain role s) = Inr ()
   then audit_one_row s (snd (create_user hashpw salt log_now created password_plain role s))
   else audit_log (snd (create_user hashpw salt log_now created password_plain role s)) =
          audit_log s"
  by (simp add: create_user_def Let_def audit_one_row_def log_audit_def split: option.splits)

lemma set_setting_audit:
  "audit_appended s (set_setting log_now key val actor s) (actor_or_unknown actor)"
  by (simp add: set_setting_def log_audit_appended)

text \<open>
  Claim C3, as stated, fails: a call that returns a failure writes no audit row. Here
  the administrator tries to borrow a book that is on loan; the call returns
  \<open>success = False\<close> and the audit table is left as it was, so no row with actor
  \<open>admin\<close> has been appended.
\<close>

theorem borrow_book_failure_no_audit_row:
  "fst (borrow_book (at_day 738020) (at_day 738020) 1 1 14 (Some ''admin'') library) =
     Inr \<lparr>success = False, message = [Lit ''Book currently not available.''],
           late_fee = None\<rparr> \<and>
   \<not> audit_appended library
       (snd (borrow_book (at_day 738020) (at_day 738020) 1 1 14 (Some ''admin'') library))
       ''admin'' \<and>
   audit_log
       (snd (borrow_book (at_day 738020) (at_day 738020) 1 1 14 (Some ''admin'') library)) =
     audit_log library"
  by (simp add: audit_appended_def borrow_book_def fetchone_def library_def dune_def emma_def)

text \<open>
  Claim C3, amended. A call of \<open>borrow_book\<close>, \<open>return_book\<close>,
  \<open>change_user_password\<close> or \<open>admin_reset_password\<close> that returns
  \<open>success = True\<close>, a call of \<open>create_user\<close> that returns without raising, and
  every call of \<open>set_setting\<close> appends exactly one new audit row; a call that returns
  \<open>success = False\<close> or raises appends none. The actor of the row equals the acting
  caller's username where the call carries it: the \<open>actor\<close> argument of
  \<open>borrow_book\<close>, \<open>return_book\<close> and \<open>set_setting\<close> when it is a non-empty
  username, the \<open>username\<close> of \<open>change_user_password\<close>, and the
  \<open>admin_username\<close> of \<open>admin_reset_password\<close>.
\<close>

theorem audit_row_per_effective_call:
  "(if succeeded (fst (borrow_book now log_now bid mid days_due actor s))
    then audit_one_row s (snd (borrow_book now log_now bid mid days_due actor s)) \<and>
         (actor = Some caller \<and> caller \<noteq> [] \<longrightarrow>
            audit_actor (last (audit_log
              (snd (borrow_book now log_now bid mid days_due actor s)))) = caller)
    else audit_log (snd (borrow_book now log_now bid mid days_due actor s)) = audit_log s) \<and>
   (if succeeded (fst (return_book py_float now log_now lid actor s))
    then audit_one_row s (snd (return_book py_float now log_now lid actor s)) \<and>
         (actor = Some caller \<and> caller \<noteq> [] \<longrightarrow>
            audit_actor (last (audit_log
              (snd (return_book py_float now log_now lid actor s)))) = caller)
    else audit_log (snd (return_book py_float now log_now lid actor s)) = audit_log s) \<and>
   (if succeeded (fst (change_user_password checkpw hashpw salt log_now username
          old_password_plain new_password_plain s))
    then audit_appended s (snd (change_user_password checkpw hashpw salt log_now username
          old_password_plain new_password_plain s)) username
    else audit_log (snd (change_user_password checkpw hashpw salt log_now username
          old_password_plain new_password_plain s)) = audit_log s) \<and>
   (if succeeded (fst (admin_reset_password hashpw salt log_now admin_username target_username
          new_password_plain s))
    then audit_appended s (snd (admin_reset_password hashpw salt log_now admin_username
          target_username new_password_plain s)) admin_username
    else audit_log (snd (admin_reset_password hashpw salt log_now admin_username
          target_username new_password_plain s)) = audit_log s) \<and>
   (if fst (create_user hashpw salt log_now created password_plain role s) = Inr ()
    then audit_one_row s (snd (create_user hashpw salt log_now created password_plain role s))
    else audit_log (snd (create_user hashpw salt log_now created password_plain role s)) =
           audit_log s) \<and>
   audit_one_row s (set_setting log_now key val actor s) \<and>
   (actor = Some caller \<and> caller \<noteq> [] \<longrightarrow>
      audit_actor (last (audit_log (set_setting log_now key val actor s))) = caller)"
proof -
  have b: "if succeeded (fst (borrow_book now log_now bid mid days_due actor s))
    then audit_one_row s (snd (borrow_book now log_now bid mid days_due actor s)) \<and>
         (actor = Some caller \<and> caller \<noteq> [] \<longrightarrow>
            audit_actor (last (audit_log
              (snd (borrow_book now log_now bid mid days_due actor s)))) = caller)
    else audit_log (snd (borrow_book now log_now bid mid days_due actor s)) = audit_log s"
    using borrow_book_audit [of now log_now bid mid days_due actor s]
      audit_appended_caller [of s "snd (borrow_book now log_now bid mid days_due actor s)"
        actor caller]
    by (simp split: if_splits)
  have r: "if succeeded (fst (return_book py_float now log_now lid actor s))
    then audit_one_row s (snd (return_book py_float now log_now lid actor s)) \<and>
         (actor = Some caller \<and> caller \<noteq> [] \<longrightarrow>
            audit_actor (last (audit_log
              (snd (return_book py_float now log_now lid actor s)))) = caller)
    else audit_log (snd (return_book py_float now log_now lid actor s)) = audit_log s"
    using return_book_audit [of py_float now log_now lid actor s]
      audit_appended_caller [of s "snd (return_book py_float now log_now lid actor s)"
        actor caller]
    by (simp split: if_splits)
  note t = audit_appended_caller [OF set_setting_audit, of s log_now key val actor caller]
  from b r change_user_password_audit admin_reset_password_audit create_user_audit
    t [THEN conjunct1] t [THEN conjunct2]
  show ?thesis by (intro conjI)
qed

theorem audit_row_per_effective_call_witness:
  "succeeded (fst (return_book toy_float (at_day 738020) (at_day 738020) 1 (Some ''ann'')
     library)) \<and>
   audit_one_row library
     (snd (return_book toy_float (at_day 738020) (at_day 738020) 1 (Some ''ann'') library)) \<and>
   ''ann'' \<noteq> [] \<and>
   audit_actor (last (audit_log
     (snd (return_book toy_float (at_day 738020) (at_day 738020) 1 (Some ''ann'') library)))) =
     ''ann'' \<and>
   succeeded (fst (borrow_book (at_day 738020) (at_day 738020) 2 1 14 (Some ''ann'') library)) \<and>
   audit_one_row library
     (snd (borrow_book (at_day 738020) (at_day 738020) 2 1 14 (Some ''ann'') library)) \<and>
   audit_actor (last (audit_log
     (snd (borrow_book (at_day 738020) (at_day 738020) 2 1 14 (Some ''ann'') library)))) =
     ''ann'' \<and>
   audit_actor (last (audit_log
     (set_setting (at_day 738020) ''smtp_port'' ''25'' (Some ''ann'') library))) = ''ann'' \<and>
   fst (create_user toy_hashpw ''s4'' (at_day 738020) ''bob'' ''pw'' ''staff'' library) = Inr () \<and>
   audit_one_row library
     (snd (create_user toy_hashpw ''s4'' (at_day 738020) ''bob'' ''pw'' ''staff'' library)) \<and>
   fst (create_user toy_hashpw ''s4'' (at_day 738020) ''admin'' ''pw'' ''staff'' library) =
     Inl IntegrityError \<and>
   audit_log (snd (create_user toy_hashpw ''s4'' (at_day 738020) ''admin'' ''pw'' ''staff''
     library)) = audit_log library \<and>
   fst (admin_reset_password toy_hashpw ''s4'' (at_day 738020) ''admin'' ''ghost''
     long_password library) = Inl ValueError \<and>
   audit_log (snd (admin_reset_password toy_hashpw ''s4'' (at_day 738020) ''admin'' ''ghost''
     long_password library)) = audit_log library"
proof -
  have r: "succeeded (fst (return_book toy_float (at_day 738020) (at_day 738020) 1 (Some ''ann'')
      library))"
    by (simp add: return_book_def succeeded_def fetchone_def library_def loan_dune_def
        loan_emma_def Let_def)
  have b: "succeeded (fst (borrow_book (at_day 738020) (at_day 738020) 2 1 14 (Some ''ann'')
      library))"
    by (simp add: borrow_book_def succeeded_def fetchone_def library_def dune_def emma_def
        ordinal_at_day date_in_range_def sqlite_int_def Let_def)
  have c: "fst (create_user toy_hashpw ''s4'' (at_day 738020) ''bob'' ''pw'' ''staff'' library) =
      Inr ()"
    by (simp add: create_user_def toy_hashpw_def library_def Let_def)
  have d: "fst (create_user toy_hashpw ''s4'' (at_day 738020) ''admin'' ''pw'' ''staff'' library) =
      Inl IntegrityError"
    by (simp add: create_user_def toy_hashpw_def library_def Let_def)
  have a: "fst (admin_reset_password toy_hashpw ''s4'' (at_day 738020) ''admin'' ''ghost''
      long_password library) = Inl ValueError"
    by (simp add: admin_reset_password_def toy_hashpw_def long_password_def)
  have na: "\<not> succeeded (fst (admin_reset_password toy_hashpw ''s4'' (at_day 738020) ''admin''
      ''ghost'' long_password library))"
    by (simp add: a succeeded_def)
  have nd: "fst (create_user toy_hashpw ''s4'' (at_day 738020) ''admin'' ''pw'' ''staff''
      library) \<noteq> Inr ()"
    by (simp add: d)
  have ne: "''ann'' \<noteq> []"
    by simp
  note t1 = audit_row_per_effective_call [where s = library and py_float = toy_float
      and now = "at_day 738020" and log_now = "at_day 738020" and lid = 1 and bid = 2 and mid = 1
      and days_due = 14 and actor = "Some ''ann''" and caller = "''ann''"
      and hashpw = toy_hashpw and salt = "''s4''" and created = "''bob''"
      and password_plain = "''pw''" and role = "''staff''" and key = "''smtp_port''"
      and val = "''25''"]
  note t2 = audit_row_per_effective_call [where s = library and py_float = toy_float
      and now = "at_day 738020" and log_now = "at_day 738020" and lid = 1 and bid = 2 and mid = 1
      and days_due = 14 and actor = "Some ''ann''" and caller = "''ann''"
      and hashpw = toy_hashpw and salt = "''s4''" and created = "''admin''"
      and password_plain = "''pw''" and role = "''staff''" and admin_username = "''admin''"
      and target_username = "''ghost''" and new_password_plain = long_password]
  from t1 r b c ne have
    "audit_one_row library
       (snd (return_book toy_float (at_day 738020) (at_day 738020) 1 (Some ''ann'') library))"
    "audit_actor (last (audit_log
       (snd (return_book toy_float (at_day 738020) (at_day 738020) 1 (Some ''ann'') library)))) =
       ''ann''"
    "audit_one_row library
       (snd (borrow_book (at_day 738020) (at_day 738020) 2 1 14 (Some ''ann'') library))"
    "audit_actor (last (audit_log
       (snd (borrow_book (at_day 738020) (at_day 738020) 2 1 14 (Some ''ann'') library)))) =
       ''ann''"
    "audit_actor (last (audit_log
       (set_setting (at_day 738020) ''smtp_port'' ''25'' (Some ''ann'') library))) = ''ann''"
    "audit_one_row library
       (snd (create_user toy_hashpw ''s4'' (at_day 738020) ''bob'' ''pw'' ''staff'' library))"
    by simp_all
  moreover from t2 na nd have
    "audit_log (snd (create_user toy_hashpw ''s4'' (at_day 738020) ''admin'' ''pw'' ''staff''
       library)) = audit_log library"
    "audit_log (snd (admin_reset_password toy_hashpw ''s4'' (at_day 738020) ''admin'' ''ghost''
       long_password library)) = audit_log library"
    by simp_all
  ultimately show ?thesis
    using r b c d a ne by blast
qed

end
